theory Spec2Isabelle
  imports Complex_Main
begin

section \<open>The thumbnail generator of generate-thumbnails.js\<close>

text \<open>
  The script is glue code around three libraries: \<^verbatim>\<open>sharp\<close> (decode, resize, encode),
  \<^verbatim>\<open>fs-extra\<close> (the file system) and \<^verbatim>\<open>path\<close>. The libraries are not part of the
  repository, so the model takes them as a parameter: a record of operations over an
  abstract world \<open>'w\<close> (the file system, the clock). Every awaited call may reject; a
  rejection is \<open>Inl message\<close>, where \<open>message\<close> is the \<^verbatim>\<open>error.message\<close> the script
  reads. Every operation returns the world it leaves behind.

  What the script itself does is modelled as written: the configuration object, the
  extension filter, the three nested loops, the two \<^verbatim>\<open>try/catch\<close> blocks, the
  reporting step, the benchmark and the promise chain at the end of the file. Console
  output is a list of events that keep the data of each line and leave out its
  formatting (icons, \<^verbatim>\<open>toFixed\<close>).
\<close>

subsection \<open>Configuration (lines 17-30)\<close>

record size_spec =
  width :: int
  height :: int
  suffix :: string

record quality_levels =
  jpg :: int
  webp :: int
  avif :: int

record configuration =
  inputDir :: string
  outputDir :: string
  sizes :: "size_spec list"
  formats :: "string list"
  quality :: quality_levels

definition config :: configuration where
  "config =
     \<lparr>inputDir = ''./image'',
      outputDir = ''./image/thumb'',
      sizes = [\<lparr>width = 80, height = 80, suffix = ''''\<rparr>,
               \<lparr>width = 160, height = 160, suffix = ''@2x''\<rparr>],
      formats = [''jpg'', ''webp'', ''avif''],
      quality = \<lparr>jpg = 85, webp = 80, avif = 70\<rparr>\<rparr>"

subsection \<open>The sharp pipeline\<close>

text \<open>
  A pipeline is the request the script builds before \<^verbatim>\<open>toFile\<close>: the input path, the
  arguments of \<^verbatim>\<open>resize\<close> and the encoder call of the format \<^verbatim>\<open>switch\<close>, if one
  matched. An option the script does not pass is \<open>None\<close>.
\<close>

datatype encoder =
    Jpeg int "bool option" "bool option"  \<comment> \<open>quality, progressive, mozjpeg\<close>
  | Webp int "int option"  \<comment> \<open>quality, effort\<close>
  | Avif int "int option"  \<comment> \<open>quality, effort\<close>

record pipeline =
  input :: string
  resize_width :: int
  resize_height :: int
  resize_fit :: string
  resize_position :: "string option"
  output_options :: "encoder option"

subsection \<open>The environment: fs-extra, sharp, path, Date\<close>

type_synonym 'a result = "string + 'a"

record 'w environment =
  fs_ensureDir :: "string \<Rightarrow> 'w \<Rightarrow> unit result \<times> 'w"
  fs_readdir :: "string \<Rightarrow> 'w \<Rightarrow> string list result \<times> 'w"
  fs_stat :: "string \<Rightarrow> 'w \<Rightarrow> nat result \<times> 'w"  \<comment> \<open>\<^verbatim>\<open>stats.size\<close>\<close>
  fs_pathExists :: "string \<Rightarrow> 'w \<Rightarrow> bool result \<times> 'w"
  fs_remove :: "string \<Rightarrow> 'w \<Rightarrow> unit result \<times> 'w"
  sharp_toFile :: "pipeline \<Rightarrow> string \<Rightarrow> 'w \<Rightarrow> unit result \<times> 'w"
  date_now :: "'w \<Rightarrow> int"
  path_extname :: "string \<Rightarrow> string"
  path_parse_name :: "string \<Rightarrow> string"  \<comment> \<open>\<^verbatim>\<open>path.parse(file).name\<close>\<close>
  path_join :: "string \<Rightarrow> string \<Rightarrow> string"

subsection \<open>JavaScript numbers and strings\<close>

text \<open>
  The only arithmetic whose outcome is not an integer is the savings percentage of
  line 136. A finite value is kept as the exact rational (the rounding of doubles is not
  modelled); a division by zero gives the IEEE 754 values JavaScript gives, and does not
  throw. The operands of the division are integers, and the divisor is never \<open>-0\<close>.
\<close>

datatype jsnum = Finite rat | PosInfinity | NegInfinity | NaN

definition js_divide :: "int \<Rightarrow> int \<Rightarrow> jsnum" where
  "js_divide a b =
     (if b = 0 then (if a = 0 then NaN else if 0 < a then PosInfinity else NegInfinity)
      else Finite (Fract a b))"

fun js_times :: "jsnum \<Rightarrow> rat \<Rightarrow> jsnum" where
  "js_times (Finite a) b = Finite (a * b)"
| "js_times PosInfinity b = (if b = 0 then NaN else if 0 < b then PosInfinity else NegInfinity)"
| "js_times NegInfinity b = (if b = 0 then NaN else if 0 < b then NegInfinity else PosInfinity)"
| "js_times NaN b = NaN"

text \<open>
  \<^verbatim>\<open>toLowerCase\<close> on the bytes of a name: the letters A-Z are lowered. A character
  outside ASCII is left alone; JavaScript may change it, but never into one of the ASCII
  letters of the four extensions, so the filter decides the same.
\<close>

definition toLowerCase_char :: "char \<Rightarrow> char" where
  "toLowerCase_char c =
     (case map_of (zip ''ABCDEFGHIJKLMNOPQRSTUVWXYZ'' ''abcdefghijklmnopqrstuvwxyz'') c of
        None \<Rightarrow> c
      | Some l \<Rightarrow> l)"

definition toLowerCase :: "string \<Rightarrow> string" where
  "toLowerCase s = map toLowerCase_char s"

subsection \<open>Console output\<close>

datatype bench_row =
    Measured string nat int
      \<comment> \<open>\<^verbatim>\<open>{format, size: (stats.size / 1024).toFixed(1) + 'KB', time: duration + 'ms'}\<close>\<close>
  | Errored string string
      \<comment> \<open>\<^verbatim>\<open>{format, size: 'Error', time: error.message}\<close>\<close>

datatype event =
    Banner  \<comment> \<open>line 202\<close>
  | Rule  \<comment> \<open>line 203\<close>
  | Found nat  \<comment> \<open>line 44\<close>
  | OutputDirectory string  \<comment> \<open>line 45\<close>
  | GeneratingSizes "size_spec list"  \<comment> \<open>line 46\<close>
  | Formats "string list"  \<comment> \<open>line 47\<close>
  | Blank  \<comment> \<open>lines 48 and 114\<close>
  | Processing string  \<comment> \<open>line 57\<close>
  | ThumbOk string nat  \<comment> \<open>line 101: output filename, size in bytes\<close>
  | ThumbFailed string string  \<comment> \<open>line 105: output filename, error message\<close>
  | Complete nat int  \<comment> \<open>line 115: totalProcessed, elapsed milliseconds\<close>
  | SavedTo string  \<comment> \<open>line 116\<close>
  | SizeReduction nat nat jsnum  \<comment> \<open>line 137: original bytes, thumbnail bytes, savings\<close>
  | TopLevelError string  \<comment> \<open>line 140, on stderr\<close>
  | BenchmarkSkipped  \<comment> \<open>line 150\<close>
  | Benchmarking  \<comment> \<open>line 154\<close>
  | Table "bench_row list"  \<comment> \<open>line 198\<close>
  | Rejected string  \<comment> \<open>line 207, on stderr\<close>

record 'w state =
  world :: 'w
  console :: "event list"

subsection \<open>generateThumbnails (lines 32-143)\<close>

definition imageExtensions :: "string list" where
  "imageExtensions = [''.jpg'', ''.jpeg'', ''.png'', ''.webp'']"

definition isImageFile :: "'w environment \<Rightarrow> string \<Rightarrow> bool" where
  "isImageFile env file =
     (let ext = toLowerCase (path_extname env file) in ext \<in> set imageExtensions)"

text \<open>The format \<^verbatim>\<open>switch\<close> of lines 72-93; it has no default case.\<close>

definition thumbnailEncoder :: "configuration \<Rightarrow> string \<Rightarrow> encoder option" where
  "thumbnailEncoder cfg format =
     (if format = ''jpg'' \<or> format = ''jpeg''
        then Some (Jpeg (jpg (quality cfg)) (Some True) (Some True))
      else if format = ''webp'' then Some (Webp (webp (quality cfg)) (Some 6))
      else if format = ''avif'' then Some (Avif (avif (quality cfg)) (Some 4))
      else None)"

definition thumbnailPipeline :: "configuration \<Rightarrow> string \<Rightarrow> size_spec \<Rightarrow> string \<Rightarrow> pipeline" where
  "thumbnailPipeline cfg inputPath sz format =
     \<lparr>input = inputPath,
      resize_width = width sz,
      resize_height = height sz,
      resize_fit = ''cover'',
      resize_position = Some ''center'',
      output_options = thumbnailEncoder cfg format\<rparr>"

text \<open>The body of the inner \<^verbatim>\<open>try\<close> (lines 65-98): encode and write, then stat.\<close>

definition convert ::
  "'w environment \<Rightarrow> configuration \<Rightarrow> string \<Rightarrow> size_spec \<Rightarrow> string \<Rightarrow> string \<Rightarrow> 'w
     \<Rightarrow> nat result \<times> 'w" where
  "convert env cfg inputPath sz format outputPath w =
     (case sharp_toFile env (thumbnailPipeline cfg inputPath sz format) outputPath w of
        (Inl error, w1) \<Rightarrow> (Inl error, w1)
      | (Inr _, w1) \<Rightarrow> fs_stat env outputPath w1)"

definition outputFilename :: "string \<Rightarrow> size_spec \<Rightarrow> string \<Rightarrow> string" where
  "outputFilename basename sz format = basename @ suffix sz @ ''.'' @ format"

text \<open>One pass of the innermost loop (lines 61-106), acting on the state and on
  \<^verbatim>\<open>totalProcessed\<close>.\<close>

definition thumbnailTask ::
  "'w environment \<Rightarrow> configuration \<Rightarrow> string \<Rightarrow> string \<Rightarrow> size_spec \<Rightarrow> string
     \<Rightarrow> 'w state \<times> nat \<Rightarrow> 'w state \<times> nat" where
  "thumbnailTask env cfg inputPath basename sz format acc =
     (case acc of (st, totalProcessed) \<Rightarrow>
        (let name = outputFilename basename sz format;
             outputPath = path_join env (outputDir cfg) name
         in (case convert env cfg inputPath sz format outputPath (world st) of
               (Inr bytes, w) \<Rightarrow>
                 (\<lparr>world = w, console = console st @ [ThumbOk name bytes]\<rparr>,
                  totalProcessed + 1)
             | (Inl message, w) \<Rightarrow>
                 (\<lparr>world = w, console = console st @ [ThumbFailed name message]\<rparr>,
                  totalProcessed))))"

fun forFormats ::
  "'w environment \<Rightarrow> configuration \<Rightarrow> string \<Rightarrow> string \<Rightarrow> size_spec \<Rightarrow> string list
     \<Rightarrow> 'w state \<times> nat \<Rightarrow> 'w state \<times> nat" where
  "forFormats env cfg inputPath basename sz [] acc = acc"
| "forFormats env cfg inputPath basename sz (format # rest) acc =
     forFormats env cfg inputPath basename sz rest
       (thumbnailTask env cfg inputPath basename sz format acc)"

fun forSizes ::
  "'w environment \<Rightarrow> configuration \<Rightarrow> string \<Rightarrow> string \<Rightarrow> size_spec list
     \<Rightarrow> 'w state \<times> nat \<Rightarrow> 'w state \<times> nat" where
  "forSizes env cfg inputPath basename [] acc = acc"
| "forSizes env cfg inputPath basename (sz # rest) acc =
     forSizes env cfg inputPath basename rest
       (forFormats env cfg inputPath basename sz (formats cfg) acc)"

text \<open>The head of the file loop (lines 54-57), then the loop itself.\<close>

definition processing :: "string \<Rightarrow> 'w state \<times> nat \<Rightarrow> 'w state \<times> nat" where
  "processing file acc =
     (case acc of (st, totalProcessed) \<Rightarrow>
        (st\<lparr>console := console st @ [Processing file]\<rparr>, totalProcessed))"

fun forFiles ::
  "'w environment \<Rightarrow> configuration \<Rightarrow> string list \<Rightarrow> 'w state \<times> nat \<Rightarrow> 'w state \<times> nat" where
  "forFiles env cfg [] acc = acc"
| "forFiles env cfg (file # rest) acc =
     (let basename = path_parse_name env file;
          inputPath = path_join env (inputDir cfg) file
      in forFiles env cfg rest
           (forSizes env cfg inputPath basename (sizes cfg) (processing file acc)))"

text \<open>
  \<^verbatim>\<open>Promise.all(files.map(async file => (await fs.stat(join(dir, file))).size))\<close>:
  every stat is started, whatever the others do; the promise rejects if one of them does.
  When several reject, JavaScript reports the one that rejects first in time; the model
  reports the first in list order.
\<close>

fun statAll :: "'w environment \<Rightarrow> string \<Rightarrow> string list \<Rightarrow> 'w \<Rightarrow> nat result list \<times> 'w" where
  "statAll env dir [] w = ([], w)"
| "statAll env dir (file # rest) w =
     (case fs_stat env (path_join env dir file) w of
        (r, w1) \<Rightarrow> (case statAll env dir rest w1 of (rs, w2) \<Rightarrow> (r # rs, w2)))"

fun promiseAll :: "'a result list \<Rightarrow> 'a list result" where
  "promiseAll [] = Inr []"
| "promiseAll (Inl error # rest) = Inl error"
| "promiseAll (Inr v # rest) =
     (case promiseAll rest of Inl error \<Rightarrow> Inl error | Inr vs \<Rightarrow> Inr (v # vs))"

definition totalSize :: "nat list \<Rightarrow> nat" where
  "totalSize xs = foldl (\<lambda>sum sz. sum + sz) 0 xs"

definition savings :: "nat \<Rightarrow> nat \<Rightarrow> jsnum" where
  "savings totalOriginalSize totalThumbSize =
     js_times
       (js_divide (int totalOriginalSize - int totalThumbSize) (int totalOriginalSize))
       100"

text \<open>The reporting step (lines 119-137).\<close>

definition reportSavings ::
  "'w environment \<Rightarrow> configuration \<Rightarrow> string list \<Rightarrow> 'w state \<Rightarrow> unit result \<times> 'w state" where
  "reportSavings env cfg imageFiles st =
     (case statAll env (inputDir cfg) imageFiles (world st) of
        (originals, w1) \<Rightarrow>
          (case promiseAll originals of
             Inl error \<Rightarrow> (Inl error, st\<lparr>world := w1\<rparr>)
           | Inr originalSizes \<Rightarrow>
               (case fs_readdir env (outputDir cfg) w1 of
                  (Inl error, w2) \<Rightarrow> (Inl error, st\<lparr>world := w2\<rparr>)
                | (Inr thumbFiles, w2) \<Rightarrow>
                    (case statAll env (outputDir cfg) thumbFiles w2 of
                       (thumbs, w3) \<Rightarrow>
                         (case promiseAll thumbs of
                            Inl error \<Rightarrow> (Inl error, st\<lparr>world := w3\<rparr>)
                          | Inr thumbSizes \<Rightarrow>
                              (let totalOriginalSize = totalSize originalSizes;
                                   totalThumbSize = totalSize thumbSizes
                               in (Inr (),
                                   \<lparr>world = w3,
                                    console = console st @
                                      [SizeReduction totalOriginalSize totalThumbSize
                                         (savings totalOriginalSize totalThumbSize)]\<rparr>)))))))"

text \<open>Lines 39-137: what the \<^verbatim>\<open>try\<close> block does once the listing \<open>files\<close> is there.\<close>

definition afterListing ::
  "'w environment \<Rightarrow> configuration \<Rightarrow> string list \<Rightarrow> 'w state \<Rightarrow> unit result \<times> 'w state" where
  "afterListing env cfg files st =
     (let imageFiles = filter (isImageFile env) files;
          st1 = st\<lparr>console := console st @
                  [Found (length imageFiles), OutputDirectory (outputDir cfg),
                   GeneratingSizes (sizes cfg), Formats (formats cfg), Blank]\<rparr>;
          startTime = date_now env (world st1)
      in case forFiles env cfg imageFiles (st1, 0) of
           (st2, totalProcessed) \<Rightarrow>
             (let endTime = date_now env (world st2);
                  st3 = st2\<lparr>console := console st2 @
                          [Blank, Complete totalProcessed (endTime - startTime),
                           SavedTo (outputDir cfg)]\<rparr>
              in reportSavings env cfg imageFiles st3))"

text \<open>The \<^verbatim>\<open>try\<close> block (lines 34-137).\<close>

definition generateThumbnails_try ::
  "'w environment \<Rightarrow> configuration \<Rightarrow> 'w state \<Rightarrow> unit result \<times> 'w state" where
  "generateThumbnails_try env cfg st =
     (case fs_ensureDir env (outputDir cfg) (world st) of
        (Inl error, w1) \<Rightarrow> (Inl error, st\<lparr>world := w1\<rparr>)
      | (Inr _, w1) \<Rightarrow>
          (case fs_readdir env (inputDir cfg) w1 of
             (Inl error, w2) \<Rightarrow> (Inl error, st\<lparr>world := w2\<rparr>)
           | (Inr files, w2) \<Rightarrow> afterListing env cfg files (st\<lparr>world := w2\<rparr>)))"

text \<open>
  The function with its \<^verbatim>\<open>catch\<close> (lines 139-142). The second component is
  \<open>Some code\<close> when \<^verbatim>\<open>process.exit(code)\<close> ended the process, \<open>None\<close> when the function
  returned.
\<close>

definition generateThumbnails ::
  "'w environment \<Rightarrow> configuration \<Rightarrow> 'w state \<Rightarrow> 'w state \<times> nat option" where
  "generateThumbnails env cfg st =
     (case generateThumbnails_try env cfg st of
        (Inr _, st1) \<Rightarrow> (st1, None)
      | (Inl message, st1) \<Rightarrow> (st1\<lparr>console := console st1 @ [TopLevelError message]\<rparr>, Some 1))"

subsection \<open>benchmarkFormats (lines 146-199)\<close>

text \<open>The format \<^verbatim>\<open>switch\<close> of lines 165-175.\<close>

definition benchmarkEncoder :: "configuration \<Rightarrow> string \<Rightarrow> encoder option" where
  "benchmarkEncoder cfg format =
     (if format = ''jpg'' then Some (Jpeg (jpg (quality cfg)) None None)
      else if format = ''webp'' then Some (Webp (webp (quality cfg)) None)
      else if format = ''avif'' then Some (Avif (avif (quality cfg)) None)
      else None)"

definition benchmarkPipeline :: "configuration \<Rightarrow> string \<Rightarrow> string \<Rightarrow> pipeline" where
  "benchmarkPipeline cfg img format =
     \<lparr>input = img,
      resize_width = 80,
      resize_height = 80,
      resize_fit = ''cover'',
      resize_position = None,
      output_options = benchmarkEncoder cfg format\<rparr>"

text \<open>
  The body of the \<^verbatim>\<open>try\<close> (lines 163-187). It pushes the row of a measurement before it
  removes the temporary file, so the rows come back also when it throws.
\<close>

definition benchmarkTry ::
  "'w environment \<Rightarrow> configuration \<Rightarrow> string \<Rightarrow> string \<Rightarrow> string \<Rightarrow> int
     \<Rightarrow> 'w \<times> bench_row list \<Rightarrow> unit result \<times> 'w \<times> bench_row list" where
  "benchmarkTry env cfg img format path start acc =
     (case acc of (w, results) \<Rightarrow>
        (case sharp_toFile env (benchmarkPipeline cfg img format) path w of
           (Inl error, w1) \<Rightarrow> (Inl error, w1, results)
         | (Inr _, w1) \<Rightarrow>
             (case fs_stat env path w1 of
                (Inl error, w2) \<Rightarrow> (Inl error, w2, results)
              | (Inr bytes, w2) \<Rightarrow>
                  (let duration = date_now env w2 - start;
                       results1 = results @ [Measured format bytes duration]
                   in case fs_remove env path w2 of
                        (Inl error, w3) \<Rightarrow> (Inl error, w3, results1)
                      | (Inr _, w3) \<Rightarrow> (Inr (), w3, results1)))))"

definition tempPath :: "string \<Rightarrow> string" where
  "tempPath format = ''temp-test.'' @ format"

text \<open>One pass of the loop (lines 159-195).\<close>

definition benchmarkFormat ::
  "'w environment \<Rightarrow> configuration \<Rightarrow> string \<Rightarrow> string
     \<Rightarrow> 'w \<times> bench_row list \<Rightarrow> 'w \<times> bench_row list" where
  "benchmarkFormat env cfg img format acc =
     (let start = date_now env (fst acc)
      in case benchmarkTry env cfg img format (tempPath format) start acc of
           (Inr _, w1, results1) \<Rightarrow> (w1, results1)
         | (Inl message, w1, results1) \<Rightarrow> (w1, results1 @ [Errored format message]))"

fun benchmarkLoop ::
  "'w environment \<Rightarrow> configuration \<Rightarrow> string \<Rightarrow> string list
     \<Rightarrow> 'w \<times> bench_row list \<Rightarrow> 'w \<times> bench_row list" where
  "benchmarkLoop env cfg img [] acc = acc"
| "benchmarkLoop env cfg img (format # rest) acc =
     benchmarkLoop env cfg img rest (benchmarkFormat env cfg img format acc)"

definition testImage :: "'w environment \<Rightarrow> configuration \<Rightarrow> string" where
  "testImage env cfg = path_join env (inputDir cfg) ''1.jpg''"

definition benchmarkFormats ::
  "'w environment \<Rightarrow> configuration \<Rightarrow> 'w state \<Rightarrow> unit result \<times> 'w state" where
  "benchmarkFormats env cfg st =
     (case fs_pathExists env (testImage env cfg) (world st) of
        (Inl error, w1) \<Rightarrow> (Inl error, st\<lparr>world := w1\<rparr>)
      | (Inr False, w1) \<Rightarrow>
          (Inr (), \<lparr>world = w1, console = console st @ [BenchmarkSkipped]\<rparr>)
      | (Inr True, w1) \<Rightarrow>
          (case benchmarkLoop env cfg (testImage env cfg) (formats cfg) (w1, []) of
             (w2, results) \<Rightarrow>
               (Inr (), \<lparr>world = w2, console = console st @ [Benchmarking, Table results]\<rparr>)))"

subsection \<open>The script run as a program (lines 201-208)\<close>

text \<open>
  \<^verbatim>\<open>generateThumbnails().then(() => benchmarkFormats()).catch(console.error)\<close>.
  The result is the final state and the exit status of the process: the argument of
  \<^verbatim>\<open>process.exit\<close> if it was called, 0 when the process ends by itself.
\<close>

definition main :: "'w environment \<Rightarrow> configuration \<Rightarrow> 'w state \<Rightarrow> 'w state \<times> nat" where
  "main env cfg st =
     (let st1 = st\<lparr>console := console st @ [Banner, Rule]\<rparr>
      in case generateThumbnails env cfg st1 of
           (st2, Some code) \<Rightarrow> (st2, code)
         | (st2, None) \<Rightarrow>
             (case benchmarkFormats env cfg st2 of
                (Inr _, st3) \<Rightarrow> (st3, 0)
              | (Inl error, st3) \<Rightarrow> (st3\<lparr>console := console st3 @ [Rejected error]\<rparr>, 0)))"

subsection \<open>A concrete environment\<close>

text \<open>
  For running the model on concrete inputs: the POSIX functions of Node's \<^verbatim>\<open>path\<close>
  module, and a small file system in memory with a stand-in for sharp. The theorems
  below hold for every environment; this one supplies their examples.
\<close>

fun split_path :: "string \<Rightarrow> string list" where
  "split_path [] = [[]]"
| "split_path (c # cs) =
     (if c = CHR ''/'' then [] # split_path cs
      else (case split_path cs of [] \<Rightarrow> [[c]] | s # ss \<Rightarrow> (c # s) # ss))"

fun join_segments :: "string list \<Rightarrow> string" where
  "join_segments [] = []"
| "join_segments [s] = s"
| "join_segments (s # t # ss) = s @ ''/'' @ join_segments (t # ss)"

text \<open>\<^verbatim>\<open>normalizeString\<close>: the stack of segments is kept with its top first.\<close>

definition push_segment :: "bool \<Rightarrow> string list \<Rightarrow> string \<Rightarrow> string list" where
  "push_segment allowAboveRoot stack seg =
     (if seg = [] \<or> seg = ''.'' then stack
      else if seg = ''..'' then
        (case stack of
           [] \<Rightarrow> (if allowAboveRoot then [''..''] else [])
         | s # ss \<Rightarrow> (if s = ''..'' then ''..'' # stack else ss))
      else seg # stack)"

definition normalizeString :: "string \<Rightarrow> bool \<Rightarrow> string" where
  "normalizeString p allowAboveRoot =
     join_segments (rev (foldl (push_segment allowAboveRoot) [] (split_path p)))"

definition posix_normalize :: "string \<Rightarrow> string" where
  "posix_normalize p =
     (if p = [] then ''.''
      else
        (let isAbsolute = (hd p = CHR ''/'');
             trailingSeparator = (last p = CHR ''/'');
             q = normalizeString p (\<not> isAbsolute)
         in if q = [] then (if isAbsolute then ''/'' else if trailingSeparator then ''./'' else ''.'')
            else (let q1 = (if trailingSeparator then q @ ''/'' else q)
                  in if isAbsolute then ''/'' @ q1 else q1)))"

definition posix_join :: "string \<Rightarrow> string \<Rightarrow> string" where
  "posix_join a b =
     (if a = [] \<and> b = [] then ''.''
      else posix_normalize (if a = [] then b else if b = [] then a else a @ ''/'' @ b))"

text \<open>The last component of a path, trailing slashes apart.\<close>

definition last_component :: "string \<Rightarrow> string" where
  "last_component p =
     (case filter (\<lambda>s. s \<noteq> []) (rev (split_path p)) of [] \<Rightarrow> [] | s # ss \<Rightarrow> s)"

text \<open>
  The extension of a component: from its last dot on; empty when it has no dot, when
  nothing stands before the last dot, and for the component \<^verbatim>\<open>..\<close>.
\<close>

definition component_ext :: "string \<Rightarrow> string" where
  "component_ext base =
     (let after = takeWhile (\<lambda>c. c \<noteq> CHR ''.'') (rev base);
          upto = dropWhile (\<lambda>c. c \<noteq> CHR ''.'') (rev base)
      in if upto = [] \<or> tl upto = [] \<or> base = ''..'' then [] else CHR ''.'' # rev after)"

definition posix_extname :: "string \<Rightarrow> string" where
  "posix_extname p = component_ext (last_component p)"

definition posix_parse_name :: "string \<Rightarrow> string" where
  "posix_parse_name p =
     (let base = last_component p
      in take (length base - length (component_ext base)) base)"

text \<open>
  The file system: normalized paths and what is there. A file has a size in bytes and,
  when it decodes as an image, the picture it holds: the file it came from, its pixel
  width and height, and the encoder that wrote it.
\<close>

record picture =
  origin :: string
  pixel_width :: int
  pixel_height :: int
  encoded_by :: "encoder option"

datatype node = Directory | File nat "picture option"

record memfs =
  clock :: int
  nodes :: "(string \<times> node) list"

definition lookup :: "string \<Rightarrow> memfs \<Rightarrow> node option" where
  "lookup p w = map_of (nodes w) (posix_normalize p)"

definition store :: "string \<Rightarrow> node \<Rightarrow> memfs \<Rightarrow> memfs" where
  "store p n w =
     w\<lparr>nodes := filter (\<lambda>kv. fst kv \<noteq> posix_normalize p) (nodes w) @ [(posix_normalize p, n)]\<rparr>"

definition tick :: "int \<Rightarrow> memfs \<Rightarrow> memfs" where
  "tick ms w = w\<lparr>clock := clock w + ms\<rparr>"

definition child_name :: "string \<Rightarrow> string \<Rightarrow> string option" where
  "child_name dir k =
     (let name = (if dir = ''.'' then k else drop (length dir + 1) k)
      in if (dir = ''.'' \<or> take (length dir + 1) k = dir @ ''/'')
            \<and> name \<noteq> [] \<and> name \<noteq> ''.'' \<and> CHR ''/'' \<notin> set name
         then Some name else None)"

text \<open>\<^verbatim>\<open>ensureDir\<close> creates the directory with the directories above it.\<close>

definition ancestors :: "string \<Rightarrow> string list" where
  "ancestors p =
     (let segs = split_path (posix_normalize p)
      in filter (\<lambda>a. a \<noteq> []) (map (\<lambda>n. join_segments (take n segs)) [1..<Suc (length segs)]))"

fun isFile :: "node option \<Rightarrow> bool" where
  "isFile (Some (File n c)) = True"
| "isFile other = False"

definition mem_ensureDir :: "string \<Rightarrow> memfs \<Rightarrow> unit result \<times> memfs" where
  "mem_ensureDir p w =
     (if filter (\<lambda>a. isFile (lookup a w)) (ancestors p) = []
        then (Inr (),
              tick 1 (foldl (\<lambda>w1 a. if lookup a w1 = None then store a Directory w1 else w1)
                        w (ancestors p)))
      else (Inl ''ENOTDIR: not a directory'', tick 1 w))"

definition mem_readdir :: "string \<Rightarrow> memfs \<Rightarrow> string list result \<times> memfs" where
  "mem_readdir p w =
     (case lookup p w of
        None \<Rightarrow> (Inl ''ENOENT: no such file or directory'', tick 1 w)
      | Some Directory \<Rightarrow>
          (Inr (List.map_filter (\<lambda>kv. child_name (posix_normalize p) (fst kv)) (nodes w)), tick 1 w)
      | Some (File n c) \<Rightarrow> (Inl ''ENOTDIR: not a directory'', tick 1 w))"

definition mem_stat :: "string \<Rightarrow> memfs \<Rightarrow> nat result \<times> memfs" where
  "mem_stat p w =
     (case lookup p w of
        None \<Rightarrow> (Inl ''ENOENT: no such file or directory'', tick 1 w)
      | Some Directory \<Rightarrow> (Inr 4096, tick 1 w)
      | Some (File n c) \<Rightarrow> (Inr n, tick 1 w))"

definition mem_pathExists :: "string \<Rightarrow> memfs \<Rightarrow> bool result \<times> memfs" where
  "mem_pathExists p w = (Inr (lookup p w \<noteq> None), tick 1 w)"

definition mem_remove :: "string \<Rightarrow> memfs \<Rightarrow> unit result \<times> memfs" where
  "mem_remove p w =
     (Inr (), tick 1 (w\<lparr>nodes := filter (\<lambda>kv. fst kv \<noteq> posix_normalize p) (nodes w)\<rparr>))"

text \<open>
  The stand-in for sharp: it fails on a missing or undecodable input and on a size that
  is not positive; otherwise it writes a picture of the requested size, one byte a pixel.
\<close>

definition mem_toFile :: "pipeline \<Rightarrow> string \<Rightarrow> memfs \<Rightarrow> unit result \<times> memfs" where
  "mem_toFile pl out w =
     (case lookup (input pl) w of
        None \<Rightarrow> (Inl ''Input file is missing'', tick 1 w)
      | Some Directory \<Rightarrow> (Inl ''Input file is missing'', tick 1 w)
      | Some (File n None) \<Rightarrow> (Inl ''Input file contains unsupported image format'', tick 1 w)
      | Some (File n (Some pic)) \<Rightarrow>
          (if resize_width pl \<le> 0 \<or> resize_height pl \<le> 0
             then (Inl ''Expected positive integer'', tick 1 w)
           else
             (Inr (),
              tick 7
                (store out
                   (File (nat (resize_width pl * resize_height pl))
                      (Some \<lparr>origin = origin pic,
                             pixel_width = resize_width pl,
                             pixel_height = resize_height pl,
                             encoded_by = output_options pl\<rparr>))
                   w))))"

definition node_env :: "memfs environment" where
  "node_env =
     \<lparr>fs_ensureDir = mem_ensureDir,
      fs_readdir = mem_readdir,
      fs_stat = mem_stat,
      fs_pathExists = mem_pathExists,
      fs_remove = mem_remove,
      sharp_toFile = mem_toFile,
      date_now = clock,
      path_extname = posix_extname,
      path_parse_name = posix_parse_name,
      path_join = posix_join\<rparr>"

definition photo :: "string \<Rightarrow> node" where
  "photo name =
     File 50000 (Some \<lparr>origin = name, pixel_width = 1920, pixel_height = 1080, encoded_by = None\<rparr>)"

subsection \<open>Example worlds\<close>

text \<open>Two photos and a text file.\<close>

definition album :: memfs where
  "album =
     \<lparr>clock = 1000,
      nodes = [(''image'', Directory),
               (''image/a.jpg'', photo ''a.jpg''),
               (''image/b.png'', photo ''b.png''),
               (''image/notes.txt'', File 500 None)]\<rparr>"

text \<open>Two photos whose names differ in the extension only.\<close>

definition namesakes :: memfs where
  "namesakes =
     \<lparr>clock = 1000,
      nodes = [(''image'', Directory),
               (''image/a.jpg'', photo ''a.jpg''),
               (''image/a.png'', photo ''a.png'')]\<rparr>"

text \<open>A file that is no image under an image's name, before a photo.\<close>

definition damaged :: memfs where
  "damaged =
     \<lparr>clock = 1000,
      nodes = [(''image'', Directory),
               (''image/a.jpg'', File 500 None),
               (''image/b.png'', photo ''b.png'')]\<rparr>"

text \<open>An input directory without images.\<close>

definition no_images :: memfs where
  "no_images = \<lparr>clock = 1000, nodes = [(''image'', Directory), (''image/notes.txt'', File 500 None)]\<rparr>"

text \<open>A regular file where the input directory should be.\<close>

definition blocked :: memfs where
  "blocked = \<lparr>clock = 1000, nodes = [(''image'', File 500 None)]\<rparr>"


definition broken_gallery :: memfs where
  "broken_gallery = \<lparr>clock = 1000, nodes = [(''image'', Directory), (''image/1.jpg'', File 500 None)]\<rparr>"


definition exists_rejects :: "memfs environment" where
  "exists_rejects = node_env\<lparr>fs_pathExists := (\<lambda>q w. (Inl ''EIO: i/o error'', tick 1 w))\<rparr>"

definition start :: "memfs \<Rightarrow> memfs state" where
  "start w = \<lparr>world = w, console = []\<rparr>"

subsection \<open>Thumbnail tasks\<close>

text \<open>
  A thumbnail task is a triple of source file, size and format. The nested loops visit
  the tasks of a listing in this order.
\<close>

type_synonym task = "string \<times> size_spec \<times> string"

definition tasks :: "configuration \<Rightarrow> string list \<Rightarrow> task list" where
  "tasks cfg imageFiles =
     concat (map (\<lambda>file. concat (map (\<lambda>sz. map (\<lambda>format. (file, sz, format)) (formats cfg))
                                   (sizes cfg))) imageFiles)"

definition taskOutputFilename :: "'w environment \<Rightarrow> task \<Rightarrow> string" where
  "taskOutputFilename env t =
     (case t of (file, sz, format) \<Rightarrow> outputFilename (path_parse_name env file) sz format)"

definition taskOutputPath :: "'w environment \<Rightarrow> configuration \<Rightarrow> task \<Rightarrow> string" where
  "taskOutputPath env cfg t = path_join env (outputDir cfg) (taskOutputFilename env t)"

definition convertTask ::
  "'w environment \<Rightarrow> configuration \<Rightarrow> task \<Rightarrow> 'w \<Rightarrow> nat result \<times> 'w" where
  "convertTask env cfg t w =
     (case t of (file, sz, format) \<Rightarrow>
        convert env cfg (path_join env (inputDir cfg) file) sz format (taskOutputPath env cfg t) w)"

definition taskEvent :: "'w environment \<Rightarrow> task \<Rightarrow> nat result \<Rightarrow> event" where
  "taskEvent env t r =
     (case r of Inr bytes \<Rightarrow> ThumbOk (taskOutputFilename env t) bytes
              | Inl message \<Rightarrow> ThumbFailed (taskOutputFilename env t) message)"

text \<open>
  What one task does to the world, to the list of thumbnail lines on the console and to
  \<^verbatim>\<open>totalProcessed\<close>.
\<close>

definition flatStep ::
  "'w environment \<Rightarrow> configuration \<Rightarrow> 'w \<times> event list \<times> nat \<Rightarrow> task \<Rightarrow> 'w \<times> event list \<times> nat" where
  "flatStep env cfg s t =
     (case s of (w, evs, n) \<Rightarrow>
        (case convertTask env cfg t w of
           (r, w1) \<Rightarrow> (w1, evs @ [taskEvent env t r], (case r of Inr _ \<Rightarrow> n + 1 | Inl _ \<Rightarrow> n))))"

fun isThumbEvent :: "event \<Rightarrow> bool" where
  "isThumbEvent (ThumbOk name bytes) = True"
| "isThumbEvent (ThumbFailed name message) = True"
| "isThumbEvent e = False"

fun isThumbFailed :: "event \<Rightarrow> bool" where
  "isThumbFailed (ThumbFailed name message) = True"
| "isThumbFailed e = False"

fun isTopLevelError :: "event \<Rightarrow> bool" where
  "isTopLevelError (TopLevelError message) = True"
| "isTopLevelError e = False"

fun isProcessing :: "event \<Rightarrow> bool" where
  "isProcessing (Processing file) = True"
| "isProcessing e = False"

definition summary :: "'w state \<times> nat \<Rightarrow> 'w \<times> event list \<times> nat" where
  "summary acc = (world (fst acc), filter isThumbEvent (console (fst acc)), snd acc)"

subsection \<open>The reporting step as the specification words it\<close>

text \<open>
  The specification has the reporting step scan the input directory again and sum the
  sizes of the files found there. This is that reading, to be compared with
  \<open>reportSavings\<close>: list the directory, stat every entry, add the sizes up.
\<close>

definition spec_rescan_total :: "'w environment \<Rightarrow> string \<Rightarrow> 'w \<Rightarrow> nat option" where
  "spec_rescan_total env dir w =
     (case fs_readdir env dir w of
        (Inl error, w1) \<Rightarrow> None
      | (Inr files, w1) \<Rightarrow>
          (case promiseAll (fst (statAll env dir files w1)) of
             Inl error \<Rightarrow> None
           | Inr found \<Rightarrow> Some (totalSize found)))"

subsection \<open>Worlds after a run\<close>

text \<open>
  What the stand-in for sharp writes for the default configuration: six thumbnails a
  source file, and the six lines that report them.
\<close>

definition thumbnail :: "string \<Rightarrow> int \<Rightarrow> encoder \<Rightarrow> node" where
  "thumbnail src side enc =
     File (nat (side * side))
       (Some \<lparr>origin = src, pixel_width = side, pixel_height = side, encoded_by = Some enc\<rparr>)"

definition thumbnails_of :: "string \<Rightarrow> string \<Rightarrow> (string \<times> node) list" where
  "thumbnails_of base src =
     [(''image/thumb/'' @ base @ ''.jpg'', thumbnail src 80 (Jpeg 85 (Some True) (Some True))),
      (''image/thumb/'' @ base @ ''.webp'', thumbnail src 80 (Webp 80 (Some 6))),
      (''image/thumb/'' @ base @ ''.avif'', thumbnail src 80 (Avif 70 (Some 4))),
      (''image/thumb/'' @ base @ ''@2x.jpg'', thumbnail src 160 (Jpeg 85 (Some True) (Some True))),
      (''image/thumb/'' @ base @ ''@2x.webp'', thumbnail src 160 (Webp 80 (Some 6))),
      (''image/thumb/'' @ base @ ''@2x.avif'', thumbnail src 160 (Avif 70 (Some 4)))]"

definition thumb_lines :: "string \<Rightarrow> event list" where
  "thumb_lines base =
     [ThumbOk (base @ ''.jpg'') 6400, ThumbOk (base @ ''.webp'') 6400,
      ThumbOk (base @ ''.avif'') 6400, ThumbOk (base @ ''@2x.jpg'') 25600,
      ThumbOk (base @ ''@2x.webp'') 25600, ThumbOk (base @ ''@2x.avif'') 25600]"

definition album_listed :: memfs where
  "album_listed = \<lparr>clock = 1002, nodes = nodes album @ [(''image/thumb'', Directory)]\<rparr>"

definition album_done :: memfs where
  "album_done =
     \<lparr>clock = 1098,
      nodes = nodes album_listed @ thumbnails_of ''a'' ''a.jpg'' @ thumbnails_of ''b'' ''b.png''\<rparr>"

definition leftover :: memfs where
  "leftover =
     \<lparr>clock = 1000,
      nodes = [(''image'', Directory), (''image/notes.txt'', File 500 None),
               (''image/thumb'', Directory),
               (''image/thumb/old.webp'', thumbnail ''old.jpg'' 80 (Webp 80 (Some 6)))]\<rparr>"

definition album_thumb_names :: "string list" where
  "album_thumb_names =
     [''a.jpg'', ''a.webp'', ''a.avif'', ''a@2x.jpg'', ''a@2x.webp'', ''a@2x.avif'',
      ''b.jpg'', ''b.webp'', ''b.avif'', ''b@2x.jpg'', ''b@2x.webp'', ''b@2x.avif'']"

definition namesakes_done :: memfs where
  "namesakes_done =
     \<lparr>clock = 1107,
      nodes = nodes namesakes @ (''image/thumb'', Directory) # thumbnails_of ''a'' ''a.png''\<rparr>"

definition album_console :: "event list" where
  "album_console =
     [Found 2, OutputDirectory (outputDir config), GeneratingSizes (sizes config),
      Formats (formats config), Blank]
     @ Processing ''a.jpg'' # thumb_lines ''a'' @ Processing ''b.png'' # thumb_lines ''b''
     @ [Blank, Complete 12 96, SavedTo (outputDir config),
        SizeReduction 100000 192000 (Finite (- 92))]"

section \<open>Properties\<close>

subsection \<open>The loops\<close>

lemma forFormats_append:
  "forFormats env cfg ip bn sz (xs @ ys) acc =
   forFormats env cfg ip bn sz ys (forFormats env cfg ip bn sz xs acc)"
  by (induction xs arbitrary: acc) simp_all

lemma forSizes_append:
  "forSizes env cfg ip bn (xs @ ys) acc =
   forSizes env cfg ip bn ys (forSizes env cfg ip bn xs acc)"
  by (induction xs arbitrary: acc) simp_all

lemma forFiles_append:
  "forFiles env cfg (xs @ ys) acc = forFiles env cfg ys (forFiles env cfg xs acc)"
  by (induction xs arbitrary: acc) (simp_all add: Let_def)

lemma benchmarkLoop_append:
  "benchmarkLoop env cfg img (xs @ ys) acc =
   benchmarkLoop env cfg img ys (benchmarkLoop env cfg img xs acc)"
  by (induction xs arbitrary: acc) simp_all

lemma summary_thumbnailTask:
  "summary (thumbnailTask env cfg (path_join env (inputDir cfg) file) (path_parse_name env file)
              sz format acc) =
   flatStep env cfg (summary acc) (file, sz, format)"
  by (cases acc)
     (auto simp: summary_def thumbnailTask_def flatStep_def convertTask_def taskOutputPath_def
        taskOutputFilename_def taskEvent_def Let_def split: prod.splits sum.splits)

lemma summary_processing: "summary (processing file acc) = summary acc"
  by (cases acc) (simp add: summary_def processing_def)

lemma summary_forFormats:
  "summary (forFormats env cfg (path_join env (inputDir cfg) file) (path_parse_name env file)
              sz fs acc) =
   foldl (flatStep env cfg) (summary acc) (map (\<lambda>format. (file, sz, format)) fs)"
  by (induction fs arbitrary: acc) (simp_all add: summary_thumbnailTask)

lemma summary_forSizes:
  "summary (forSizes env cfg (path_join env (inputDir cfg) file) (path_parse_name env file)
              szs acc) =
   foldl (flatStep env cfg) (summary acc)
     (concat (map (\<lambda>sz. map (\<lambda>format. (file, sz, format)) (formats cfg)) szs))"
  by (induction szs arbitrary: acc) (simp_all add: summary_forFormats)

lemma summary_forFiles:
  "summary (forFiles env cfg files acc) = foldl (flatStep env cfg) (summary acc) (tasks cfg files)"
  by (induction files arbitrary: acc)
     (simp_all add: tasks_def Let_def summary_forSizes summary_processing)

lemma length_tasks:
  "length (tasks cfg files) = length files * length (sizes cfg) * length (formats cfg)"
proof -
  have inner: "length (concat (map (\<lambda>sz. map (\<lambda>format. (f, sz, format)) fs) szs))
                 = length szs * length fs" for f :: string and fs :: "string list" and szs :: "size_spec list"
    by (induction szs) simp_all
  show ?thesis
    unfolding tasks_def by (induction files) (simp_all add: inner algebra_simps)
qed

lemma foldl_flatStep_count:
  "foldl (flatStep env cfg) (w, evs, n) ts = (w', evs', n') \<Longrightarrow>
   length evs' = length evs + length ts \<and> take (length evs) evs' = evs \<and>
   n' + length (filter isThumbFailed (drop (length evs) evs')) = n + length ts"
proof (induction ts arbitrary: w evs n)
  case Nil
  then show ?case by simp
next
  case (Cons t ts)
  obtain r w1 where c: "convertTask env cfg t w = (r, w1)" by (cases "convertTask env cfg t w")
  let ?n1 = "(case r of Inr _ \<Rightarrow> n + 1 | Inl _ \<Rightarrow> n)"
  have step: "flatStep env cfg (w, evs, n) t = (w1, evs @ [taskEvent env t r], ?n1)"
    by (simp add: flatStep_def c)
  from Cons.prems have "foldl (flatStep env cfg) (w1, evs @ [taskEvent env t r], ?n1) ts = (w', evs', n')"
    by (simp add: step)
  from Cons.IH[OF this]
  have len: "length evs' = length (evs @ [taskEvent env t r]) + length ts"
    and tk: "take (length (evs @ [taskEvent env t r])) evs' = evs @ [taskEvent env t r]"
    and cnt: "n' + length (filter isThumbFailed (drop (length (evs @ [taskEvent env t r])) evs')) = ?n1 + length ts"
    by auto
  have tk0: "take (length evs) evs' = evs"
    using tk by (metis append_eq_conv_conj append_take_drop_id append.assoc)
  have dr: "drop (length evs) evs' = taskEvent env t r # drop (Suc (length evs)) evs'"
    using tk len by (metis append_eq_conv_conj append_take_drop_id length_append_singleton append.assoc append_Cons append_Nil)
  show ?case using len tk0 cnt dr
    by (cases r) (auto simp: taskEvent_def)
qed


lemma foldl_flatStep_all_ok:
  assumes "foldl (flatStep env cfg) (w, evs, n) ts = (w', evs', n')"
      and "\<forall>e \<in> set (drop (length evs) evs'). \<not> isThumbFailed e"
    shows "n' = n + length ts"
proof -
  have "filter isThumbFailed (drop (length evs) evs') = []"
    using assms(2) by (simp add: filter_empty_conv)
  with foldl_flatStep_count[OF assms(1)] show ?thesis by simp
qed

lemma thumbnailTask_console:
  "\<exists>evs. console (fst (thumbnailTask env cfg ip bn sz format acc)) = console (fst acc) @ evs
         \<and> (\<forall>e \<in> set evs. \<not> isTopLevelError e)"
  by (cases acc) (auto simp: thumbnailTask_def Let_def split: prod.splits sum.splits)

lemma forFormats_console:
  "\<exists>evs. console (fst (forFormats env cfg ip bn sz fs acc)) = console (fst acc) @ evs
         \<and> (\<forall>e \<in> set evs. \<not> isTopLevelError e)"
proof (induction fs arbitrary: acc)
  case Nil
  then show ?case by simp
next
  case (Cons f fs)
  obtain evs1 where 1: "console (fst (thumbnailTask env cfg ip bn sz f acc)) = console (fst acc) @ evs1"
    "\<forall>e \<in> set evs1. \<not> isTopLevelError e"
    using thumbnailTask_console by blast
  obtain evs2 where 2: "console (fst (forFormats env cfg ip bn sz fs (thumbnailTask env cfg ip bn sz f acc)))
      = console (fst (thumbnailTask env cfg ip bn sz f acc)) @ evs2"
    "\<forall>e \<in> set evs2. \<not> isTopLevelError e"
    using Cons.IH by blast
  show ?case
    by (rule exI[of _ "evs1 @ evs2"]) (use 1 2 in auto)
qed

lemma forSizes_console:
  "\<exists>evs. console (fst (forSizes env cfg ip bn szs acc)) = console (fst acc) @ evs
         \<and> (\<forall>e \<in> set evs. \<not> isTopLevelError e)"
proof (induction szs arbitrary: acc)
  case Nil
  then show ?case by simp
next
  case (Cons sz szs)
  obtain evs1 where 1: "console (fst (forFormats env cfg ip bn sz (formats cfg) acc)) = console (fst acc) @ evs1"
    "\<forall>e \<in> set evs1. \<not> isTopLevelError e"
    using forFormats_console by blast
  obtain evs2 where 2: "console (fst (forSizes env cfg ip bn szs (forFormats env cfg ip bn sz (formats cfg) acc)))
      = console (fst (forFormats env cfg ip bn sz (formats cfg) acc)) @ evs2"
    "\<forall>e \<in> set evs2. \<not> isTopLevelError e"
    using Cons.IH by blast
  show ?case
    by (rule exI[of _ "evs1 @ evs2"]) (use 1 2 in auto)
qed

lemma forFiles_console:
  "\<exists>evs. console (fst (forFiles env cfg files acc)) = console (fst acc) @ evs
         \<and> (\<forall>e \<in> set evs. \<not> isTopLevelError e)"
proof (induction files arbitrary: acc)
  case Nil
  then show ?case by simp
next
  case (Cons f files)
  let ?ip = "path_join env (inputDir cfg) f" and ?bn = "path_parse_name env f"
  let ?a1 = "forSizes env cfg ?ip ?bn (sizes cfg) (processing f acc)"
  have 0: "console (fst (processing f acc)) = console (fst acc) @ [Processing f]"
    by (cases acc) (simp add: processing_def)
  obtain evs1 where 1: "console (fst ?a1) = console (fst (processing f acc)) @ evs1"
    "\<forall>e \<in> set evs1. \<not> isTopLevelError e"
    using forSizes_console by blast
  obtain evs2 where 2: "console (fst (forFiles env cfg files ?a1)) = console (fst ?a1) @ evs2"
    "\<forall>e \<in> set evs2. \<not> isTopLevelError e"
    using Cons.IH by blast
  show ?case
    by (rule exI[of _ "Processing f # evs1 @ evs2"]) (use 0 1 2 in \<open>auto simp: Let_def\<close>)
qed

lemma reportSavings_console:
  "reportSavings env cfg imageFiles st = (r, st1) \<Longrightarrow>
   \<exists>evs. console st1 = console st @ evs \<and> (\<forall>e \<in> set evs. \<not> isTopLevelError e)"
  by (auto simp: reportSavings_def Let_def split: prod.splits sum.splits)

lemma afterListing_console:
  assumes "afterListing env cfg files st = (r, st1)"
  shows "\<exists>evs. console st1 = console st @ evs \<and> (\<forall>e \<in> set evs. \<not> isTopLevelError e)"
proof -
  let ?imageFiles = "filter (isImageFile env) files"
  let ?st1 = "st\<lparr>console := console st @
                  [Found (length ?imageFiles), OutputDirectory (outputDir cfg),
                   GeneratingSizes (sizes cfg), Formats (formats cfg), Blank]\<rparr>"
  obtain st2 n where loop: "forFiles env cfg ?imageFiles (?st1, 0) = (st2, n)"
    by (cases "forFiles env cfg ?imageFiles (?st1, 0)")
  let ?st3 = "st2\<lparr>console := console st2 @
                 [Blank, Complete n (date_now env (world st2) - date_now env (world ?st1)),
                  SavedTo (outputDir cfg)]\<rparr>"
  have rep: "reportSavings env cfg ?imageFiles ?st3 = (r, st1)"
    using assms loop by (simp add: afterListing_def Let_def)
  obtain evs1 where 1: "console st2 = console ?st1 @ evs1" "\<forall>e \<in> set evs1. \<not> isTopLevelError e"
    using forFiles_console[of env cfg ?imageFiles "(?st1, 0)"] loop by auto
  obtain evs2 where 2: "console st1 = console ?st3 @ evs2" "\<forall>e \<in> set evs2. \<not> isTopLevelError e"
    using reportSavings_console[OF rep] by blast
  show ?thesis
    by (rule exI[of _ "[Found (length ?imageFiles), OutputDirectory (outputDir cfg),
                   GeneratingSizes (sizes cfg), Formats (formats cfg), Blank] @ evs1 @
                   [Blank, Complete n (date_now env (world st2) - date_now env (world ?st1)),
                  SavedTo (outputDir cfg)] @ evs2"]) (use 1 2 in auto)
qed

lemma generateThumbnails_try_console:
  assumes "generateThumbnails_try env cfg st = (r, st1)"
  shows "\<exists>evs. console st1 = console st @ evs \<and> (\<forall>e \<in> set evs. \<not> isTopLevelError e)"
proof (cases "fs_ensureDir env (outputDir cfg) (world st)")
  case (Pair r1 w1)
  show ?thesis
  proof (cases r1)
    case (Inl e)
    with Pair assms show ?thesis by (auto simp: generateThumbnails_try_def)
  next
    case (Inr u)
    show ?thesis
    proof (cases "fs_readdir env (inputDir cfg) w1")
      case (Pair r2 w2)
      show ?thesis
      proof (cases r2)
        case (Inl e)
        with Pair \<open>fs_ensureDir env (outputDir cfg) (world st) = (r1, w1)\<close> Inr assms
        show ?thesis by (auto simp: generateThumbnails_try_def)
      next
        case (Inr files)
        with Pair \<open>fs_ensureDir env (outputDir cfg) (world st) = (r1, w1)\<close> \<open>r1 = Inr u\<close> assms
        have "afterListing env cfg files (st\<lparr>world := w2\<rparr>) = (r, st1)"
          by (simp add: generateThumbnails_try_def)
        from afterListing_console[OF this] show ?thesis by simp
      qed
    qed
  qed
qed


subsection \<open>Evaluating the concrete environment\<close>

lemma node_env_simps:
  "fs_ensureDir node_env = mem_ensureDir" "fs_readdir node_env = mem_readdir"
  "fs_stat node_env = mem_stat" "fs_pathExists node_env = mem_pathExists"
  "fs_remove node_env = mem_remove" "sharp_toFile node_env = mem_toFile"
  "date_now node_env = clock" "path_extname node_env = posix_extname"
  "path_parse_name node_env = posix_parse_name" "path_join node_env = posix_join"
  by (simp_all add: node_env_def)

lemmas posix_defs = posix_normalize_def normalizeString_def push_segment_def posix_join_def
  last_component_def component_ext_def posix_extname_def posix_parse_name_def

lemmas memfs_defs = lookup_def store_def tick_def child_name_def ancestors_def
  mem_ensureDir_def mem_readdir_def mem_stat_def mem_pathExists_def mem_remove_def
  mem_toFile_def photo_def List.map_filter_def

lemmas script_defs = imageExtensions_def isImageFile_def toLowerCase_def toLowerCase_char_def
  thumbnailEncoder_def thumbnailPipeline_def convert_def outputFilename_def thumbnailTask_def
  processing_def totalSize_def savings_def js_divide_def reportSavings_def afterListing_def
  generateThumbnails_try_def generateThumbnails_def benchmarkEncoder_def benchmarkPipeline_def
  benchmarkTry_def tempPath_def benchmarkFormat_def testImage_def benchmarkFormats_def main_def
  Let_def start_def config_def

lemmas eval_simps = node_env_simps posix_defs memfs_defs script_defs

lemma exists_rejects_simps:
  "fs_ensureDir exists_rejects = mem_ensureDir" "fs_readdir exists_rejects = mem_readdir"
  "fs_stat exists_rejects = mem_stat"
  "fs_pathExists exists_rejects = (\<lambda>q w. (Inl ''EIO: i/o error'', tick 1 w))"
  "fs_remove exists_rejects = mem_remove" "sharp_toFile exists_rejects = mem_toFile"
  "date_now exists_rejects = clock" "path_extname exists_rejects = posix_extname"
  "path_parse_name exists_rejects = posix_parse_name" "path_join exists_rejects = posix_join"
  by (simp_all add: exists_rejects_def node_env_def)

subsection \<open>The benchmark without its test image\<close>

text \<open>
  Claim C6. When the test image \<^verbatim>\<open>1.jpg\<close> of the input directory does not exist,
  \<open>benchmarkFormats\<close> returns without an error; it prints the warning and nothing else,
  and the world is the one the existence test left: nothing was resized, encoded,
  measured or removed.
\<close>

theorem benchmark_skipped_without_test_image:
  assumes "fs_pathExists env (path_join env (inputDir cfg) ''1.jpg'') (world st) = (Inr False, w)"
  shows "benchmarkFormats env cfg st = (Inr (), \<lparr>world = w, console = console st @ [BenchmarkSkipped]\<rparr>)"
  using assms by (simp add: benchmarkFormats_def testImage_def)

theorem benchmark_skipped_without_test_image_witness:
  "benchmarkFormats node_env config (start album)
     = (Inr (), \<lparr>world = album\<lparr>clock := 1001\<rparr>, console = [BenchmarkSkipped]\<rparr>)"
proof -
  have 1: "fs_pathExists node_env (path_join node_env (inputDir config) ''1.jpg'') (world (start album))
             = (Inr False, album\<lparr>clock := 1001\<rparr>)"
    by (simp add: node_env_simps posix_defs lookup_def tick_def mem_pathExists_def config_def
          start_def album_def)
  show ?thesis
    using benchmark_skipped_without_test_image[OF 1] by (simp add: start_def)
qed

subsection \<open>Top-level errors\<close>

text \<open>
  An output directory that cannot be created and an input directory that cannot be listed
  are errors of the \<^verbatim>\<open>try\<close> block.
\<close>

lemma ensureDir_failure_is_top_level:
  "fs_ensureDir env (outputDir cfg) (world st) = (Inl message, w) \<Longrightarrow>
   generateThumbnails_try env cfg st = (Inl message, st\<lparr>world := w\<rparr>)"
  by (simp add: generateThumbnails_try_def)

lemma readdir_failure_is_top_level:
  "fs_ensureDir env (outputDir cfg) (world st) = (Inr (), w1) \<Longrightarrow>
   fs_readdir env (inputDir cfg) w1 = (Inl message, w) \<Longrightarrow>
   generateThumbnails_try env cfg st = (Inl message, st\<lparr>world := w\<rparr>)"
  by (simp add: generateThumbnails_try_def)

text \<open>
  Claim C8. An error that leaves the \<^verbatim>\<open>try\<close> block of \<open>generateThumbnails\<close> is caught
  once and logged, and the process ends with exit status 1: the run of the script
  ends in the state the block left, with one line for the error added, and the console
  holds exactly one top-level error line more than before the run. The benchmark does
  not run.
\<close>

theorem top_level_error_exits_with_1:
  assumes "generateThumbnails_try env cfg (st\<lparr>console := console st @ [Banner, Rule]\<rparr>)
             = (Inl message, st1)"
  shows "main env cfg st = (st1\<lparr>console := console st1 @ [TopLevelError message]\<rparr>, 1)
         \<and> length (filter isTopLevelError (console st1 @ [TopLevelError message]))
             = Suc (length (filter isTopLevelError (console st)))"
proof -
  obtain evs where evs: "console st1 = (console st @ [Banner, Rule]) @ evs"
      "\<forall>e \<in> set evs. \<not> isTopLevelError e"
    using generateThumbnails_try_console[OF assms] by auto
  have "filter isTopLevelError evs = []"
    using evs(2) by (simp add: filter_empty_conv)
  then have count: "length (filter isTopLevelError (console st1 @ [TopLevelError message]))
             = Suc (length (filter isTopLevelError (console st)))"
    by (simp add: evs(1))
  have "main env cfg st = (st1\<lparr>console := console st1 @ [TopLevelError message]\<rparr>, 1)"
    using assms by (simp add: main_def generateThumbnails_def)
  with count show ?thesis by blast
qed

theorem top_level_error_exits_with_1_witness:
  "main node_env config (start blocked) =
     (\<lparr>world = \<lparr>clock = 1001, nodes = [(''image'', File 500 None)]\<rparr>,
       console = [Banner, Rule, TopLevelError ''ENOTDIR: not a directory'']\<rparr>, 1)
   \<and> length (filter isTopLevelError [Banner, Rule, TopLevelError ''ENOTDIR: not a directory'']) = 1"
proof -
  have 1: "generateThumbnails_try node_env config
             ((start blocked)\<lparr>console := console (start blocked) @ [Banner, Rule]\<rparr>)
           = (Inl ''ENOTDIR: not a directory'',
              \<lparr>world = \<lparr>clock = 1001, nodes = [(''image'', File 500 None)]\<rparr>,
               console = [Banner, Rule]\<rparr>)"
    by (simp add: node_env_simps posix_defs memfs_defs script_defs blocked_def)
  show ?thesis
    using top_level_error_exits_with_1[OF 1] by (simp add: start_def)
qed

subsection \<open>The end of the promise chain\<close>

text \<open>
  Claim C10. When \<open>generateThumbnails\<close> has returned and \<open>benchmarkFormats\<close> then
  rejects, the final \<^verbatim>\<open>.catch(console.error)\<close> prints the error and nothing calls
  \<^verbatim>\<open>process.exit\<close>: the exit status is 0. (In the model \<open>benchmarkFormats\<close> rejects
  only when \<^verbatim>\<open>pathExists\<close> does; everything else it awaits is inside its \<^verbatim>\<open>try\<close>.)
\<close>

theorem benchmark_rejection_leaves_exit_status_0:
  assumes "generateThumbnails env cfg (st\<lparr>console := console st @ [Banner, Rule]\<rparr>) = (st1, None)"
      and "benchmarkFormats env cfg st1 = (Inl message, st2)"
    shows "main env cfg st = (st2\<lparr>console := console st2 @ [Rejected message]\<rparr>, 0)"
  using assms by (simp add: main_def)

theorem benchmark_rejection_leaves_exit_status_0_witness:
  "main exists_rejects config (start no_images) =
     (\<lparr>world = \<lparr>clock = 1004,
                  nodes = [(''image'', Directory), (''image/notes.txt'', File 500 None),
                           (''image/thumb'', Directory)]\<rparr>,
       console = [Banner, Rule, Found 0, OutputDirectory ''./image/thumb'',
                  GeneratingSizes (sizes config), Formats [''jpg'', ''webp'', ''avif''], Blank,
                  Blank, Complete 0 0, SavedTo ''./image/thumb'', SizeReduction 0 0 NaN,
                  Rejected ''EIO: i/o error'']\<rparr>,
      0)"
proof -
  let ?nodes = "[(''image'', Directory), (''image/notes.txt'', File 500 None),
                 (''image/thumb'', Directory)]"
  let ?lines = "[Banner, Rule, Found 0, OutputDirectory ''./image/thumb'',
                 GeneratingSizes (sizes config), Formats [''jpg'', ''webp'', ''avif''], Blank,
                 Blank, Complete 0 0, SavedTo ''./image/thumb'', SizeReduction 0 0 NaN]"
  have 1: "generateThumbnails exists_rejects config
             ((start no_images)\<lparr>console := console (start no_images) @ [Banner, Rule]\<rparr>)
           = (\<lparr>world = \<lparr>clock = 1003, nodes = ?nodes\<rparr>, console = ?lines\<rparr>, None)"
    by (simp add: exists_rejects_simps posix_defs memfs_defs script_defs no_images_def)
  have 2: "benchmarkFormats exists_rejects config
             \<lparr>world = \<lparr>clock = 1003, nodes = ?nodes\<rparr>, console = ?lines\<rparr>
           = (Inl ''EIO: i/o error'',
              \<lparr>world = \<lparr>clock = 1004, nodes = ?nodes\<rparr>, console = ?lines\<rparr>)"
    by (simp add: exists_rejects_simps benchmarkFormats_def tick_def)
  show ?thesis
    using benchmark_rejection_leaves_exit_status_0[OF 1 2] by simp
qed

subsection \<open>A failing task\<close>

text \<open>
  Claim C2. When the encode, the write or the stat of a task fails, the error is caught and
  logged with the output filename and the error message, \<^verbatim>\<open>totalProcessed\<close> stays as it
  was, and the loops go on with the next task. Take the task of \<open>file\<close>, \<open>sz\<close> and
  \<open>format\<close>, anywhere in the listing and in the configured sizes and formats, and the
  state the loops are in when they reach it. If the body of the \<^verbatim>\<open>try\<close> fails there,
  the three loops end as they end from that state with the failure line added: over the
  formats after \<open>format\<close>, the sizes after \<open>sz\<close> and the files after \<open>file\<close>.
\<close>

theorem task_failure_is_logged_and_skipped:
  assumes sizes: "sizes cfg = sizesBefore @ sz # sizesAfter"
      and formats: "formats cfg = formatsBefore @ format # formatsAfter"
      and inputPath: "inputPath = path_join env (inputDir cfg) file"
      and basename: "basename = path_parse_name env file"
      and reached: "forFormats env cfg inputPath basename sz formatsBefore
                      (forSizes env cfg inputPath basename sizesBefore
                         (processing file (forFiles env cfg filesBefore acc)))
                    = (st, totalProcessed)"
      and fails: "convert env cfg inputPath sz format
                    (path_join env (outputDir cfg) (outputFilename basename sz format)) (world st)
                  = (Inl message, w)"
    shows "forFiles env cfg (filesBefore @ file # filesAfter) acc =
             forFiles env cfg filesAfter
               (forSizes env cfg inputPath basename sizesAfter
                  (forFormats env cfg inputPath basename sz formatsAfter
                     (\<lparr>world = w,
                       console = console st @ [ThumbFailed (outputFilename basename sz format) message]\<rparr>,
                      totalProcessed)))"
proof -
  let ?start = "processing file (forFiles env cfg filesBefore acc)"
  have task: "thumbnailTask env cfg inputPath basename sz format (st, totalProcessed) =
                (\<lparr>world = w,
                  console = console st @ [ThumbFailed (outputFilename basename sz format) message]\<rparr>,
                 totalProcessed)"
    using fails by (simp add: thumbnailTask_def Let_def)
  have "forFiles env cfg (filesBefore @ file # filesAfter) acc =
          forFiles env cfg filesAfter (forSizes env cfg inputPath basename (sizes cfg) ?start)"
    by (simp add: forFiles_append Let_def inputPath basename)
  also have "forSizes env cfg inputPath basename (sizes cfg) ?start =
          forSizes env cfg inputPath basename sizesAfter
            (forFormats env cfg inputPath basename sz (formats cfg)
               (forSizes env cfg inputPath basename sizesBefore ?start))"
    by (simp add: sizes forSizes_append)
  also have "forFormats env cfg inputPath basename sz (formats cfg)
               (forSizes env cfg inputPath basename sizesBefore ?start) =
          forFormats env cfg inputPath basename sz formatsAfter
            (thumbnailTask env cfg inputPath basename sz format (st, totalProcessed))"
    by (simp add: formats forFormats_append reached)
  finally show ?thesis
    by (simp only: task)
qed

theorem task_failure_is_logged_and_skipped_witness:
  "forFiles node_env config [''a.jpg'', ''b.png''] (start damaged, 0) =
     forFiles node_env config [''b.png'']
       (forSizes node_env config ''image/a.jpg'' ''a'' [\<lparr>width = 160, height = 160, suffix = ''@2x''\<rparr>]
          (forFormats node_env config ''image/a.jpg'' ''a'' \<lparr>width = 80, height = 80, suffix = ''''\<rparr>
             [''webp'', ''avif'']
             (\<lparr>world = damaged\<lparr>clock := 1001\<rparr>,
               console = [Processing ''a.jpg'',
                          ThumbFailed ''a.jpg'' ''Input file contains unsupported image format'']\<rparr>,
              0)))"
proof -
  let ?sz = "\<lparr>width = 80, height = 80, suffix = ''''\<rparr>"
  have 1: "sizes config = [] @ ?sz # [\<lparr>width = 160, height = 160, suffix = ''@2x''\<rparr>]"
    by (simp add: config_def)
  have 2: "formats config = [] @ ''jpg'' # [''webp'', ''avif'']"
    by (simp add: config_def)
  have 3: "''image/a.jpg'' = path_join node_env (inputDir config) ''a.jpg''"
    by (simp add: node_env_simps posix_defs config_def)
  have 4: "''a'' = path_parse_name node_env ''a.jpg''"
    by (simp add: node_env_simps posix_defs)
  have 5: "forFormats node_env config ''image/a.jpg'' ''a'' ?sz []
             (forSizes node_env config ''image/a.jpg'' ''a'' []
                (processing ''a.jpg'' (forFiles node_env config [] (start damaged, 0))))
           = (\<lparr>world = damaged, console = [Processing ''a.jpg'']\<rparr>, 0)"
    by (simp add: processing_def start_def)
  have 6: "convert node_env config ''image/a.jpg'' ?sz ''jpg''
             (path_join node_env (outputDir config) (outputFilename ''a'' ?sz ''jpg''))
             (world \<lparr>world = damaged, console = [Processing ''a.jpg'']\<rparr>)
           = (Inl ''Input file contains unsupported image format'', damaged\<lparr>clock := 1001\<rparr>)"
    by (simp add: node_env_simps posix_defs memfs_defs script_defs damaged_def)
  show ?thesis
    using task_failure_is_logged_and_skipped[OF 1 2 3 4 5 6, of "[''b.png'']"]
    by (simp add: outputFilename_def)
qed

subsection \<open>A failing format in the benchmark\<close>

lemma benchmarkFormat_rows:
  "\<exists>rows. snd (benchmarkFormat env cfg img format (w, results)) = results @ rows"
  by (auto simp: benchmarkFormat_def benchmarkTry_def Let_def split: prod.splits sum.splits)

lemma benchmarkLoop_rows:
  "\<exists>rows. snd (benchmarkLoop env cfg img fs (w, results)) = results @ rows"
proof (induction fs arbitrary: w results)
  case Nil
  then show ?case by simp
next
  case (Cons f fs)
  obtain w1 results1 where step: "benchmarkFormat env cfg img f (w, results) = (w1, results1)"
    by (cases "benchmarkFormat env cfg img f (w, results)")
  obtain rows1 where 1: "results1 = results @ rows1"
    using benchmarkFormat_rows[of env cfg img f w results] step by auto
  obtain rows2 where 2: "snd (benchmarkLoop env cfg img fs (w1, results1)) = results1 @ rows2"
    using Cons.IH by blast
  show ?case
    by (rule exI[of _ "rows1 @ rows2"]) (simp add: step 1 2[unfolded 1])
qed

lemma benchmarkFormat_failure:
  assumes "sharp_toFile env (benchmarkPipeline cfg img format) (tempPath format) w = (Inl message, w2)
           \<or> (\<exists>w1. sharp_toFile env (benchmarkPipeline cfg img format) (tempPath format) w = (Inr (), w1)
                    \<and> fs_stat env (tempPath format) w1 = (Inl message, w2))"
  shows "benchmarkFormat env cfg img format (w, results) = (w2, results @ [Errored format message])"
  using assms by (auto simp: benchmarkFormat_def benchmarkTry_def Let_def)

text \<open>
  Claim C7. When the resize, the encode or the stat of a configured format fails in the
  benchmark, the failure becomes a row of the table, with \<^verbatim>\<open>'Error'\<close> for the size and
  the error message for the time; nothing is raised, and the formats after it are
  benchmarked from the world the failure left.
\<close>

theorem benchmark_failure_is_recorded:
  assumes exists: "fs_pathExists env (testImage env cfg) (world st) = (Inr True, w0)"
      and formats: "formats cfg = formatsBefore @ format # formatsAfter"
      and reached: "benchmarkLoop env cfg (testImage env cfg) formatsBefore (w0, []) = (w, results)"
      and fails:
        "sharp_toFile env (benchmarkPipeline cfg (testImage env cfg) format) (tempPath format) w
           = (Inl message, w2)
         \<or> (\<exists>w1. sharp_toFile env (benchmarkPipeline cfg (testImage env cfg) format)
                      (tempPath format) w = (Inr (), w1)
                  \<and> fs_stat env (tempPath format) w1 = (Inl message, w2))"
    shows "\<exists>w3 rows.
             benchmarkLoop env cfg (testImage env cfg) formatsAfter
                 (w2, results @ [Errored format message])
               = (w3, results @ Errored format message # rows)
             \<and> benchmarkFormats env cfg st
               = (Inr (), \<lparr>world = w3,
                           console = console st @
                             [Benchmarking, Table (results @ Errored format message # rows)]\<rparr>)"
proof -
  let ?img = "testImage env cfg"
  obtain w3 final where rest:
    "benchmarkLoop env cfg ?img formatsAfter (w2, results @ [Errored format message]) = (w3, final)"
    by (cases "benchmarkLoop env cfg ?img formatsAfter (w2, results @ [Errored format message])")
  obtain rows where rows: "final = (results @ [Errored format message]) @ rows"
    using benchmarkLoop_rows[of env cfg ?img formatsAfter w2 "results @ [Errored format message]"] rest
    by auto
  have "benchmarkLoop env cfg ?img (formats cfg) (w0, []) =
          benchmarkLoop env cfg ?img formatsAfter (benchmarkFormat env cfg ?img format (w, results))"
    by (simp add: formats benchmarkLoop_append reached)
  also have "\<dots> = (w3, final)"
    by (simp add: benchmarkFormat_failure[OF fails] rest)
  finally have "benchmarkFormats env cfg st =
      (Inr (), \<lparr>world = w3, console = console st @ [Benchmarking, Table final]\<rparr>)"
    using exists by (simp add: benchmarkFormats_def)
  with rest rows show ?thesis by simp
qed


theorem benchmark_failure_is_recorded_witness:
  "benchmarkFormats node_env config (start broken_gallery) =
     (Inr (),
      \<lparr>world = broken_gallery\<lparr>clock := 1004\<rparr>,
       console = [Benchmarking,
                  Table [Errored ''jpg'' ''Input file contains unsupported image format'',
                         Errored ''webp'' ''Input file contains unsupported image format'',
                         Errored ''avif'' ''Input file contains unsupported image format'']]\<rparr>)"
proof -
  let ?m = "''Input file contains unsupported image format''"
  have 1: "fs_pathExists node_env (testImage node_env config) (world (start broken_gallery))
             = (Inr True, broken_gallery\<lparr>clock := 1001\<rparr>)"
    by (simp add: node_env_simps posix_defs memfs_defs script_defs broken_gallery_def)
  have 2: "formats config = [] @ ''jpg'' # [''webp'', ''avif'']"
    by (simp add: config_def)
  have 3: "benchmarkLoop node_env config (testImage node_env config) []
             (broken_gallery\<lparr>clock := 1001\<rparr>, []) = (broken_gallery\<lparr>clock := 1001\<rparr>, [])"
    by simp
  have 4: "sharp_toFile node_env (benchmarkPipeline config (testImage node_env config) ''jpg'')
             (tempPath ''jpg'') (broken_gallery\<lparr>clock := 1001\<rparr>)
           = (Inl ?m, broken_gallery\<lparr>clock := 1002\<rparr>)"
    by (simp add: node_env_simps posix_defs memfs_defs script_defs broken_gallery_def)
  have loop: "benchmarkLoop node_env config (testImage node_env config) [''webp'', ''avif'']
                (broken_gallery\<lparr>clock := 1002\<rparr>, [] @ [Errored ''jpg'' ?m])
              = (broken_gallery\<lparr>clock := 1004\<rparr>,
                 [Errored ''jpg'' ?m, Errored ''webp'' ?m, Errored ''avif'' ?m])"
    by (simp add: node_env_simps posix_defs memfs_defs script_defs broken_gallery_def)
  from benchmark_failure_is_recorded[OF 1 2 3 disjI1[OF 4]]
  obtain w3 rows where
    a: "benchmarkLoop node_env config (testImage node_env config) [''webp'', ''avif'']
          (broken_gallery\<lparr>clock := 1002\<rparr>, [] @ [Errored ''jpg'' ?m])
        = (w3, [] @ Errored ''jpg'' ?m # rows)"
    and b: "benchmarkFormats node_env config (start broken_gallery)
        = (Inr (), \<lparr>world = w3,
                    console = console (start broken_gallery) @
                      [Benchmarking, Table ([] @ Errored ''jpg'' ?m # rows)]\<rparr>)"
    by blast
  from a loop have "w3 = broken_gallery\<lparr>clock := 1004\<rparr>"
      and "rows = [Errored ''webp'' ?m, Errored ''avif'' ?m]"
    by simp_all
  with b show ?thesis
    by (simp add: start_def)
qed




subsection \<open>The run on the album\<close>

lemmas world_defs = thumbnail_def thumbnails_of_def thumb_lines_def album_listed_def
  album_done_def album_def

lemma album_loop:
  "forFiles node_env config [''a.jpg'', ''b.png''] (\<lparr>world = album_listed, console = evs\<rparr>, n) =
     (\<lparr>world = album_done,
       console = evs @ Processing ''a.jpg'' # thumb_lines ''a'' @ Processing ''b.png'' # thumb_lines ''b''\<rparr>,
      n + 12)"
  by (simp add: node_env_simps posix_defs memfs_defs script_defs world_defs)

lemma foldl_plus: "foldl (\<lambda>a b. a + b) (n::nat) xs = n + sum_list xs"
  by (induction xs arbitrary: n) simp_all

lemma totalSize_sum_list: "totalSize xs = sum_list xs"
  by (simp add: totalSize_def foldl_plus)

lemma savings_zero: "savings 0 t = (if t = 0 then NaN else NegInfinity)"
  by (simp add: savings_def js_divide_def)

lemma savings_positive:
  "0 < a \<Longrightarrow> savings a b = Finite ((of_nat a - of_nat b) / of_nat a * 100)"
  by (simp add: savings_def js_divide_def Fract_of_int_quotient)

lemma reportSavings_world:
  "world st = world st' \<Longrightarrow>
   world (snd (reportSavings env cfg fs st)) = world (snd (reportSavings env cfg fs st'))"
  by (simp add: reportSavings_def Let_def split: prod.splits sum.splits)

lemma album_clocks: "clock album_listed = 1002" "clock album_done = 1098"
  by (simp_all add: album_listed_def album_done_def)

lemma album_images:
  "filter (isImageFile node_env) [''a.jpg'', ''b.png'', ''notes.txt'', ''thumb''] = [''a.jpg'', ''b.png'']"
  by (simp add: node_env_simps posix_defs script_defs)

lemma album_try:
  "generateThumbnails_try node_env config (start album) =
     afterListing node_env config [''a.jpg'', ''b.png'', ''notes.txt'', ''thumb'']
       \<lparr>world = album_listed, console = []\<rparr>"
  by (simp add: generateThumbnails_try_def node_env_simps posix_defs memfs_defs start_def
        album_def album_listed_def config_def)

lemma album_originals:
  "statAll node_env (inputDir config) [''a.jpg'', ''b.png''] album_done
     = ([Inr 50000, Inr 50000], album_done\<lparr>clock := 1100\<rparr>)"
  by (simp add: node_env_simps posix_defs memfs_defs world_defs config_def)

lemma album_thumbFiles:
  "fs_readdir node_env (outputDir config) (album_done\<lparr>clock := 1100\<rparr>)
     = (Inr album_thumb_names, album_done\<lparr>clock := 1101\<rparr>)"
  by (simp add: node_env_simps posix_defs memfs_defs world_defs config_def album_thumb_names_def)

lemma album_thumbs:
  "statAll node_env (outputDir config) album_thumb_names (album_done\<lparr>clock := 1101\<rparr>)
     = (map Inr [6400, 6400, 6400, 25600, 25600, 25600, 6400, 6400, 6400, 25600, 25600, 25600],
        album_done\<lparr>clock := 1113\<rparr>)"
  by (simp add: node_env_simps posix_defs memfs_defs world_defs config_def album_thumb_names_def)

lemma album_rescan:
  "spec_rescan_total node_env (inputDir config) album_done = Some (50000 + 50000 + 500 + 4096)"
  by (simp add: spec_rescan_total_def totalSize_def node_env_simps posix_defs memfs_defs world_defs
        config_def)

lemma album_afterListing:
  "afterListing node_env config [''a.jpg'', ''b.png'', ''notes.txt'', ''thumb'']
     \<lparr>world = album_listed, console = []\<rparr>
   = (Inr (), \<lparr>world = album_done\<lparr>clock := 1113\<rparr>, console = album_console\<rparr>)"
  unfolding afterListing_def album_images
  by (simp add: reportSavings_def Let_def album_loop album_originals
        album_thumbFiles album_thumbs album_clocks node_env_simps(7) totalSize_def savings_def
        js_divide_def Fract_of_int_quotient album_console_def
      del: forFiles.simps statAll.simps)

subsection \<open>No images\<close>

text \<open>
  Claim C3. When no file of the listing has a recognized extension and the \<^verbatim>\<open>try\<close>
  block completes, no thumbnail is generated: the console gets the header, the line
  \<^verbatim>\<open>Generated 0 thumbnails\<close> and the report, and only the reporting step touches the
  world. The report divides by the total original size, which is 0, without a guard: the
  percentage it prints is \<^verbatim>\<open>NaN\<close> when the output directory is empty and
  \<^verbatim>\<open>-Infinity\<close> otherwise, never a number.
\<close>

theorem no_images_no_thumbnails_unguarded_division:
  assumes none: "filter (isImageFile env) files = []"
      and ok: "afterListing env cfg files st = (Inr (), st1)"
    shows "\<exists>totalThumbSize.
             console st1 = console st @
               [Found 0, OutputDirectory (outputDir cfg), GeneratingSizes (sizes cfg),
                Formats (formats cfg), Blank, Blank, Complete 0 0, SavedTo (outputDir cfg),
                SizeReduction 0 totalThumbSize (if totalThumbSize = 0 then NaN else NegInfinity)]
             \<and> world st1 = world (snd (reportSavings env cfg [] st))"
proof -
  let ?st3 = "st\<lparr>console := console st @
                [Found 0, OutputDirectory (outputDir cfg), GeneratingSizes (sizes cfg),
                 Formats (formats cfg), Blank, Blank, Complete 0 0, SavedTo (outputDir cfg)]\<rparr>"
  have rep: "reportSavings env cfg [] ?st3 = (Inr (), st1)"
    using ok by (simp add: afterListing_def none Let_def)
  then have "\<exists>t. console st1 = console ?st3 @ [SizeReduction 0 t (savings 0 t)]"
    by (auto simp: reportSavings_def Let_def totalSize_def split: prod.splits sum.splits)
  then obtain t where t: "console st1 = console ?st3 @ [SizeReduction 0 t (savings 0 t)]"
    by blast
  have "world st1 = world (snd (reportSavings env cfg [] ?st3))"
    by (simp add: rep)
  also have "\<dots> = world (snd (reportSavings env cfg [] st))"
    by (rule reportSavings_world) simp
  finally have w: "world st1 = world (snd (reportSavings env cfg [] st))" .
  show ?thesis
    by (rule exI[of _ t]) (simp add: t w savings_zero)
qed

theorem no_images_no_thumbnails_unguarded_division_witness:
  "filter (isImageFile node_env) [''notes.txt'', ''thumb''] = []
   \<and> afterListing node_env config [''notes.txt'', ''thumb''] (start leftover) =
       (Inr (),
        \<lparr>world = leftover\<lparr>clock := 1002\<rparr>,
         console = [Found 0, OutputDirectory ''./image/thumb'', GeneratingSizes (sizes config),
                    Formats (formats config), Blank, Blank, Complete 0 0,
                    SavedTo ''./image/thumb'', SizeReduction 0 6400 NegInfinity]\<rparr>)
   \<and> (\<exists>totalThumbSize.
         [Found 0, OutputDirectory ''./image/thumb'', GeneratingSizes (sizes config),
          Formats (formats config), Blank, Blank, Complete 0 0,
          SavedTo ''./image/thumb'', SizeReduction 0 6400 NegInfinity] =
         [Found 0, OutputDirectory (outputDir config), GeneratingSizes (sizes config),
          Formats (formats config), Blank, Blank, Complete 0 0, SavedTo (outputDir config),
          SizeReduction 0 totalThumbSize (if totalThumbSize = 0 then NaN else NegInfinity)])"
proof -
  have 1: "filter (isImageFile node_env) [''notes.txt'', ''thumb''] = []"
    by (simp add: node_env_simps posix_defs script_defs)
  have 2: "afterListing node_env config [''notes.txt'', ''thumb''] (start leftover) =
       (Inr (),
        \<lparr>world = leftover\<lparr>clock := 1002\<rparr>,
         console = [Found 0, OutputDirectory ''./image/thumb'', GeneratingSizes (sizes config),
                    Formats (formats config), Blank, Blank, Complete 0 0,
                    SavedTo ''./image/thumb'', SizeReduction 0 6400 NegInfinity]\<rparr>)"
    by (simp add: node_env_simps posix_defs memfs_defs script_defs leftover_def thumbnail_def)
  from no_images_no_thumbnails_unguarded_division[OF 1 2]
  have 3: "\<exists>totalThumbSize.
         [Found 0, OutputDirectory ''./image/thumb'', GeneratingSizes (sizes config),
          Formats (formats config), Blank, Blank, Complete 0 0,
          SavedTo ''./image/thumb'', SizeReduction 0 6400 NegInfinity] =
         [Found 0, OutputDirectory (outputDir config), GeneratingSizes (sizes config),
          Formats (formats config), Blank, Blank, Complete 0 0, SavedTo (outputDir config),
          SizeReduction 0 totalThumbSize (if totalThumbSize = 0 then NaN else NegInfinity)]"
    by (auto simp: start_def)
  from 1 2 3 show ?thesis by blast
qed

subsection \<open>The savings report\<close>

text \<open>
  Claim C4, as the specification words it, has the reporting step scan the input
  directory again and sum the sizes of the files found in it. The script does that for
  the output directory only. On the album, whose input directory holds two photos, a
  text file and the output directory, the run reports 100000 original bytes, the size
  of the two photos; listing the input directory and adding up what is found there
  gives 104596 (with the 500 bytes of the text file and the 4096 of the directory entry),
  before the report and after it.
\<close>

theorem input_directory_is_not_rescanned:
  "generateThumbnails node_env config (start album)
     = (\<lparr>world = album_done\<lparr>clock := 1113\<rparr>, console = album_console\<rparr>, None)
   \<and> last album_console = SizeReduction 100000 192000 (Finite (- 92))
   \<and> spec_rescan_total node_env (inputDir config) album_done = Some 104596
   \<and> spec_rescan_total node_env (inputDir config) (album_done\<lparr>clock := 1113\<rparr>) = Some 104596
   \<and> spec_rescan_total node_env (inputDir config) album_done \<noteq> Some 100000"
proof -
  have run: "generateThumbnails node_env config (start album)
     = (\<lparr>world = album_done\<lparr>clock := 1113\<rparr>, console = album_console\<rparr>, None)"
    by (simp add: generateThumbnails_def album_try album_afterListing)
  have line: "last album_console = SizeReduction 100000 192000 (Finite (- 92))"
    by (simp add: album_console_def)
  have later: "spec_rescan_total node_env (inputDir config) (album_done\<lparr>clock := 1113\<rparr>)
                 = Some 104596"
    by (simp add: spec_rescan_total_def totalSize_def node_env_simps posix_defs memfs_defs
          world_defs config_def)
  from run line album_rescan later show ?thesis by simp
qed

text \<open>
  Claim C4, amended. After all conversion tasks, the script stats each image file of the
  filtered listing it made at the start; it does not list the input directory a second
  time, and entries that are no image files are not counted. It lists the output
  directory and stats every entry found there. It sums the sizes of each and reports
  the two totals with the savings \<^verbatim>\<open>(totalOriginalSize - totalThumbSize) /
  totalOriginalSize * 100\<close>, which is that number whenever the original total is positive.
\<close>

theorem savings_report_after_the_tasks:
  assumes loop: "forFiles env cfg (filter (isImageFile env) files)
                   (st\<lparr>console := console st @
                        [Found (length (filter (isImageFile env) files)),
                         OutputDirectory (outputDir cfg), GeneratingSizes (sizes cfg),
                         Formats (formats cfg), Blank]\<rparr>, 0)
                 = (st2, totalProcessed)"
      and originals: "statAll env (inputDir cfg) (filter (isImageFile env) files) (world st2)
                 = (originals, w1)"
      and originalSizes: "promiseAll originals = Inr originalSizes"
      and listing: "fs_readdir env (outputDir cfg) w1 = (Inr thumbFiles, w2)"
      and thumbs: "statAll env (outputDir cfg) thumbFiles w2 = (thumbs, w3)"
      and thumbSizes: "promiseAll thumbs = Inr thumbSizes"
    shows "afterListing env cfg files st =
             (Inr (),
              \<lparr>world = w3,
               console = console st2 @
                 [Blank,
                  Complete totalProcessed (date_now env (world st2) - date_now env (world st)),
                  SavedTo (outputDir cfg),
                  SizeReduction (sum_list originalSizes) (sum_list thumbSizes)
                    (savings (sum_list originalSizes) (sum_list thumbSizes))]\<rparr>)
           \<and> (0 < sum_list originalSizes \<longrightarrow>
                savings (sum_list originalSizes) (sum_list thumbSizes) =
                  Finite ((of_nat (sum_list originalSizes) - of_nat (sum_list thumbSizes))
                            / of_nat (sum_list originalSizes) * 100))"
proof -
  let ?st3 = "st2\<lparr>console := console st2 @
                 [Blank,
                  Complete totalProcessed (date_now env (world st2) - date_now env (world st)),
                  SavedTo (outputDir cfg)]\<rparr>"
  have "afterListing env cfg files st = reportSavings env cfg (filter (isImageFile env) files) ?st3"
    using loop by (simp add: afterListing_def Let_def)
  also have "\<dots> = (Inr (),
              \<lparr>world = w3,
               console = console ?st3 @
                 [SizeReduction (sum_list originalSizes) (sum_list thumbSizes)
                    (savings (sum_list originalSizes) (sum_list thumbSizes))]\<rparr>)"
    using originals originalSizes listing thumbs thumbSizes
    by (simp add: reportSavings_def Let_def totalSize_sum_list)
  finally show ?thesis
    by (simp add: savings_positive)
qed

theorem savings_report_after_the_tasks_witness:
  "afterListing node_env config [''a.jpg'', ''b.png'', ''notes.txt'', ''thumb'']
     \<lparr>world = album_listed, console = []\<rparr>
   = (Inr (), \<lparr>world = album_done\<lparr>clock := 1113\<rparr>, console = album_console\<rparr>)
   \<and> savings 100000 192000 = Finite ((100000 - 192000) / 100000 * 100)"
proof -
  let ?files = "[''a.jpg'', ''b.png'', ''notes.txt'', ''thumb'']"
  let ?st = "\<lparr>world = album_listed, console = []\<rparr>"
  let ?lines = "[Found 2, OutputDirectory (outputDir config), GeneratingSizes (sizes config),
      Formats (formats config), Blank]
     @ Processing ''a.jpg'' # thumb_lines ''a'' @ Processing ''b.png'' # thumb_lines ''b''"
  have loop: "forFiles node_env config (filter (isImageFile node_env) ?files)
                   (?st\<lparr>console := console ?st @
                        [Found (length (filter (isImageFile node_env) ?files)),
                         OutputDirectory (outputDir config), GeneratingSizes (sizes config),
                         Formats (formats config), Blank]\<rparr>, 0)
                 = (\<lparr>world = album_done, console = ?lines\<rparr>, 12)"
    unfolding album_images by (simp add: album_loop del: forFiles.simps)
  have originals: "statAll node_env (inputDir config) (filter (isImageFile node_env) ?files)
                     (world \<lparr>world = album_done, console = ?lines\<rparr>)
                 = ([Inr 50000, Inr 50000], album_done\<lparr>clock := 1100\<rparr>)"
    unfolding album_images by (simp add: album_originals del: statAll.simps)
  have originalSizes: "promiseAll [Inr 50000, Inr 50000] = (Inr [50000, 50000] :: nat list result)"
    by simp
  have thumbSizes: "promiseAll (map Inr [6400, 6400, 6400, 25600, 25600, 25600, 6400, 6400, 6400,
                                        25600, 25600, 25600])
      = (Inr [6400, 6400, 6400, 25600, 25600, 25600, 6400, 6400, 6400, 25600, 25600, 25600]
          :: nat list result)"
    by simp
  show ?thesis
    using savings_report_after_the_tasks[OF loop originals originalSizes album_thumbFiles
        album_thumbs thumbSizes]
    by (simp add: album_clocks node_env_simps(7) album_console_def)
qed

subsection \<open>One conversion per task\<close>

text \<open>
  Claim C1, as the specification words it, gives every image file its own
  \<open>sizes \<times> formats\<close> output files, each holding that file's picture. The output name
  drops the extension of the source, so two image files that differ in the extension only
  are written to the same six paths. In the directory \<open>namesakes\<close>, \<^verbatim>\<open>a.jpg\<close> and
  \<^verbatim>\<open>a.png\<close> are both recognized, all twelve tasks succeed, and the output directory ends
  with six files, not twelve; the file written by the task of \<^verbatim>\<open>a.jpg\<close>, 80 pixels and
  \<^verbatim>\<open>jpg\<close> holds the picture of \<^verbatim>\<open>a.png\<close>.
\<close>

theorem namesakes_share_their_thumbnails:
  "filter (isImageFile node_env) [''a.jpg'', ''a.png'', ''thumb''] = [''a.jpg'', ''a.png'']
   \<and> generateThumbnails node_env config (start namesakes)
     = (\<lparr>world = namesakes_done,
         console =
           [Found 2, OutputDirectory (outputDir config), GeneratingSizes (sizes config),
            Formats (formats config), Blank]
           @ Processing ''a.jpg'' # thumb_lines ''a'' @ Processing ''a.png'' # thumb_lines ''a''
           @ [Blank, Complete 12 96, SavedTo (outputDir config),
              SizeReduction 100000 96000 (Finite 4)]\<rparr>,
        None)
   \<and> fst (fs_readdir node_env (outputDir config) namesakes_done)
     = Inr [''a.jpg'', ''a.webp'', ''a.avif'', ''a@2x.jpg'', ''a@2x.webp'', ''a@2x.avif'']
   \<and> length [''a.jpg'', ''a.webp'', ''a.avif'', ''a@2x.jpg'', ''a@2x.webp'', ''a@2x.avif'']
       \<noteq> length [''a.jpg'', ''a.png''] * length (sizes config) * length (formats config)
   \<and> lookup (taskOutputPath node_env config (''a.jpg'', hd (sizes config), ''jpg'')) namesakes_done
     = Some (thumbnail ''a.png'' 80 (Jpeg 85 (Some True) (Some True)))"
proof -
  have images: "filter (isImageFile node_env) [''a.jpg'', ''a.png'', ''thumb''] = [''a.jpg'', ''a.png'']"
    by (simp add: node_env_simps posix_defs script_defs)
  have run: "generateThumbnails node_env config (start namesakes)
     = (\<lparr>world = namesakes_done,
         console =
           [Found 2, OutputDirectory (outputDir config), GeneratingSizes (sizes config),
            Formats (formats config), Blank]
           @ Processing ''a.jpg'' # thumb_lines ''a'' @ Processing ''a.png'' # thumb_lines ''a''
           @ [Blank, Complete 12 96, SavedTo (outputDir config),
              SizeReduction 100000 96000 (Finite 4)]\<rparr>,
        None)"
    by (simp add: eval_simps world_defs namesakes_def namesakes_done_def Fract_of_int_quotient)
  have listing: "fst (fs_readdir node_env (outputDir config) namesakes_done)
     = Inr [''a.jpg'', ''a.webp'', ''a.avif'', ''a@2x.jpg'', ''a@2x.webp'', ''a@2x.avif'']"
    by (simp add: node_env_simps posix_defs memfs_defs world_defs namesakes_def namesakes_done_def
          config_def)
  have fewer: "length [''a.jpg'', ''a.webp'', ''a.avif'', ''a@2x.jpg'', ''a@2x.webp'', ''a@2x.avif'']
       \<noteq> length [''a.jpg'', ''a.png''] * length (sizes config) * length (formats config)"
    by (simp add: config_def)
  have content: "lookup (taskOutputPath node_env config (''a.jpg'', hd (sizes config), ''jpg''))
      namesakes_done = Some (thumbnail ''a.png'' 80 (Jpeg 85 (Some True) (Some True)))"
    by (simp add: taskOutputPath_def taskOutputFilename_def outputFilename_def node_env_simps
          posix_defs lookup_def thumbnails_of_def namesakes_def namesakes_done_def config_def)
  from images run listing fewer content show ?thesis by blast
qed

text \<open>
  Claim C1, amended. For every configuration and every list of image files, the loops
  make exactly one conversion per task (file, size, format), in loop order: on the world,
  the thumbnail lines of the console and \<^verbatim>\<open>totalProcessed\<close> they act as the fold of
  \<open>flatStep\<close> over the \<open>files \<times> sizes \<times> formats\<close> tasks. The conversion of a task
  resizes the source to \<open>width \<times> height\<close> with fit \<^verbatim>\<open>cover\<close> and position \<^verbatim>\<open>center\<close>,
  encodes with the encoder of the format \<^verbatim>\<open>switch\<close> at the configured quality
  (\<^verbatim>\<open>jpg\<close> and \<^verbatim>\<open>jpeg\<close>, \<^verbatim>\<open>webp\<close>, \<^verbatim>\<open>avif\<close>), and writes to
  \<^verbatim>\<open><basename><suffix>.<format>\<close> in the output directory. The successes counted and
  the failures logged add up to \<open>files \<times> sizes \<times> formats\<close>, so absent a failure that
  many thumbnails are reported. They are that many different output files when no two
  tasks have the same output path.
\<close>

theorem one_conversion_per_task:
  "summary (forFiles env cfg imageFiles acc)
     = foldl (flatStep env cfg) (summary acc) (tasks cfg imageFiles)
   \<and> length (tasks cfg imageFiles) = length imageFiles * length (sizes cfg) * length (formats cfg)
   \<and> convertTask env cfg (file, sz, format) w =
       (case sharp_toFile env
               \<lparr>input = path_join env (inputDir cfg) file,
                resize_width = width sz, resize_height = height sz,
                resize_fit = ''cover'', resize_position = Some ''center'',
                output_options = thumbnailEncoder cfg format\<rparr>
               (path_join env (outputDir cfg) (path_parse_name env file @ suffix sz @ ''.'' @ format))
               w of
          (Inl error, w1) \<Rightarrow> (Inl error, w1)
        | (Inr u, w1) \<Rightarrow>
            fs_stat env
              (path_join env (outputDir cfg) (path_parse_name env file @ suffix sz @ ''.'' @ format))
              w1)
   \<and> thumbnailEncoder cfg ''jpg'' = Some (Jpeg (jpg (quality cfg)) (Some True) (Some True))
   \<and> thumbnailEncoder cfg ''jpeg'' = Some (Jpeg (jpg (quality cfg)) (Some True) (Some True))
   \<and> thumbnailEncoder cfg ''webp'' = Some (Webp (webp (quality cfg)) (Some 6))
   \<and> thumbnailEncoder cfg ''avif'' = Some (Avif (avif (quality cfg)) (Some 4))
   \<and> snd (forFiles env cfg imageFiles acc)
       + length (filter isThumbFailed (console (fst (forFiles env cfg imageFiles acc))))
     = snd acc + length (filter isThumbFailed (console (fst acc)))
       + length imageFiles * length (sizes cfg) * length (formats cfg)
   \<and> (distinct (map (taskOutputPath env cfg) (tasks cfg imageFiles)) \<longrightarrow>
        card (set (map (taskOutputPath env cfg) (tasks cfg imageFiles)))
          = length imageFiles * length (sizes cfg) * length (formats cfg))"
proof -
  let ?r = "forFiles env cfg imageFiles acc"
  have flat: "summary ?r = foldl (flatStep env cfg) (summary acc) (tasks cfg imageFiles)"
    by (rule summary_forFiles)
  have len: "length (tasks cfg imageFiles)
               = length imageFiles * length (sizes cfg) * length (formats cfg)"
    by (rule length_tasks)
  have conv: "convertTask env cfg (file, sz, format) w =
       (case sharp_toFile env
               \<lparr>input = path_join env (inputDir cfg) file,
                resize_width = width sz, resize_height = height sz,
                resize_fit = ''cover'', resize_position = Some ''center'',
                output_options = thumbnailEncoder cfg format\<rparr>
               (path_join env (outputDir cfg) (path_parse_name env file @ suffix sz @ ''.'' @ format))
               w of
          (Inl error, w1) \<Rightarrow> (Inl error, w1)
        | (Inr u, w1) \<Rightarrow>
            fs_stat env
              (path_join env (outputDir cfg) (path_parse_name env file @ suffix sz @ ''.'' @ format))
              w1)"
    by (simp add: convertTask_def convert_def thumbnailPipeline_def taskOutputPath_def
          taskOutputFilename_def outputFilename_def split: prod.splits sum.splits)
  have enc: "thumbnailEncoder cfg ''jpg'' = Some (Jpeg (jpg (quality cfg)) (Some True) (Some True))"
    "thumbnailEncoder cfg ''jpeg'' = Some (Jpeg (jpg (quality cfg)) (Some True) (Some True))"
    "thumbnailEncoder cfg ''webp'' = Some (Webp (webp (quality cfg)) (Some 6))"
    "thumbnailEncoder cfg ''avif'' = Some (Avif (avif (quality cfg)) (Some 4))"
    by (simp_all add: thumbnailEncoder_def)
  obtain new where new: "console (fst ?r) = console (fst acc) @ new"
    using forFiles_console[of env cfg imageFiles acc] by blast
  have ff: "filter (\<lambda>e. isThumbEvent e \<and> isThumbFailed e) xs = filter isThumbFailed xs" for xs
  proof -
    have "isThumbFailed e \<Longrightarrow> isThumbEvent e" for e by (cases e) simp_all
    then show ?thesis by (auto intro: filter_cong)
  qed
  have fold: "foldl (flatStep env cfg)
                (world (fst acc), filter isThumbEvent (console (fst acc)), snd acc)
                (tasks cfg imageFiles)
              = (world (fst ?r), filter isThumbEvent (console (fst ?r)), snd ?r)"
    using flat by (simp add: summary_def)
  have "snd ?r + length (filter isThumbFailed
                    (drop (length (filter isThumbEvent (console (fst acc))))
                       (filter isThumbEvent (console (fst ?r)))))
          = snd acc + length (tasks cfg imageFiles)"
    using foldl_flatStep_count[OF fold] by simp
  then have count: "snd ?r + length (filter isThumbFailed (console (fst ?r)))
      = snd acc + length (filter isThumbFailed (console (fst acc)))
        + length imageFiles * length (sizes cfg) * length (formats cfg)"
    by (simp add: new ff len)
  have card: "distinct (map (taskOutputPath env cfg) (tasks cfg imageFiles)) \<longrightarrow>
        card (set (map (taskOutputPath env cfg) (tasks cfg imageFiles)))
          = length imageFiles * length (sizes cfg) * length (formats cfg)"
    using distinct_card[of "map (taskOutputPath env cfg) (tasks cfg imageFiles)"] len
    by (simp del: set_map)
  from flat len conv enc count card show ?thesis
    by blast
qed

theorem one_conversion_per_task_witness:
  "snd (forFiles node_env config [''a.jpg'', ''b.png''] (\<lparr>world = album_listed, console = []\<rparr>, 0)) = 12
   \<and> distinct (map (taskOutputPath node_env config) (tasks config [''a.jpg'', ''b.png'']))
   \<and> card (set (map (taskOutputPath node_env config) (tasks config [''a.jpg'', ''b.png'']))) = 12"
proof -
  let ?acc = "(\<lparr>world = album_listed, console = []\<rparr>, 0::nat)"
  let ?r = "forFiles node_env config [''a.jpg'', ''b.png''] ?acc"
  have none_failed: "filter isThumbFailed (console (fst ?r)) = []"
    by (simp add: album_loop thumb_lines_def del: forFiles.simps)
  have different: "distinct (map (taskOutputPath node_env config) (tasks config [''a.jpg'', ''b.png'']))"
    by (simp add: tasks_def taskOutputPath_def taskOutputFilename_def outputFilename_def
          node_env_simps posix_defs config_def)
  have product: "length [''a.jpg'', ''b.png''] * length (sizes config) * length (formats config) = 12"
    by (simp add: config_def)
  from one_conversion_per_task[of node_env config "[''a.jpg'', ''b.png'']" ?acc]
  have "snd ?r + length (filter isThumbFailed (console (fst ?r)))
          = snd ?acc + length (filter isThumbFailed (console (fst ?acc)))
            + length [''a.jpg'', ''b.png''] * length (sizes config) * length (formats config)"
    and "distinct (map (taskOutputPath node_env config) (tasks config [''a.jpg'', ''b.png''])) \<longrightarrow>
         card (set (map (taskOutputPath node_env config) (tasks config [''a.jpg'', ''b.png''])))
           = length [''a.jpg'', ''b.png''] * length (sizes config) * length (formats config)"
    by blast+
  with none_failed different product show ?thesis
    by simp
qed

subsection \<open>The extension filter\<close>

text \<open>
  The loops print one \<^verbatim>\<open>Processing\<close> line for each file they are given, in order, and
  every task they run has one of these files as its source.
\<close>

lemma thumbnailTask_processing:
  "filter isProcessing (console (fst (thumbnailTask env cfg ip bn sz format acc)))
     = filter isProcessing (console (fst acc))"
  by (cases acc) (auto simp: thumbnailTask_def Let_def split: prod.splits sum.splits)

lemma forFormats_processing:
  "filter isProcessing (console (fst (forFormats env cfg ip bn sz fs acc)))
     = filter isProcessing (console (fst acc))"
  by (induction fs arbitrary: acc) (simp_all add: thumbnailTask_processing)

lemma forSizes_processing:
  "filter isProcessing (console (fst (forSizes env cfg ip bn szs acc)))
     = filter isProcessing (console (fst acc))"
  by (induction szs arbitrary: acc) (simp_all add: forFormats_processing)

lemma forFiles_processing:
  "filter isProcessing (console (fst (forFiles env cfg files acc)))
     = filter isProcessing (console (fst acc)) @ map Processing files"
proof (induction files arbitrary: acc)
  case Nil
  then show ?case by simp
next
  case (Cons f files)
  have "filter isProcessing (console (fst (processing f acc)))
          = filter isProcessing (console (fst acc)) @ [Processing f]"
    by (cases acc) (simp add: processing_def)
  then show ?case
    by (simp add: Cons.IH Let_def forSizes_processing)
qed

lemma tasks_sources: "fst ` set (tasks cfg files) \<subseteq> set files"
  by (auto simp: tasks_def)

text \<open>
  Claim C5. The listing of the input directory is filtered by extension to exactly
  \<^verbatim>\<open>.jpg\<close>, \<^verbatim>\<open>.jpeg\<close>, \<^verbatim>\<open>.png\<close> and \<^verbatim>\<open>.webp\<close>, compared after lowering the case;
  a file with any other extension is ignored silently. Let \<open>kept\<close> be the files of the
  listing whose lowered extension is one of the four, in the order of the listing. A file
  passes the filter of the script exactly when its lowered extension is one of the four.
  Once the output directory is there and the input directory is listed, the \<^verbatim>\<open>try\<close>
  block counts \<open>kept\<close> in its first line, runs the loops over \<open>kept\<close> and reports on
  \<open>kept\<close>. The loops add one \<^verbatim>\<open>Processing\<close> line for each file of \<open>kept\<close> and no
  other; what they do to the world, to the thumbnail lines and to \<^verbatim>\<open>totalProcessed\<close>
  is what the tasks of \<open>kept\<close> do, and each of these tasks has a file of \<open>kept\<close> as
  its source. The other files of the listing add no task and no line.
\<close>

theorem listing_filtered_by_extension:
  assumes made: "fs_ensureDir env (outputDir cfg) (world st) = (Inr (), w1)"
      and listed: "fs_readdir env (inputDir cfg) w1 = (Inr files, w2)"
      and kept: "kept = [file \<leftarrow> files. toLowerCase (path_extname env file)
                                          \<in> {''.jpg'', ''.jpeg'', ''.png'', ''.webp''}]"
      and loop: "forFiles env cfg kept
                   (\<lparr>world = w2,
                     console = console st @
                       [Found (length kept), OutputDirectory (outputDir cfg),
                        GeneratingSizes (sizes cfg), Formats (formats cfg), Blank]\<rparr>, 0)
                 = (st2, totalProcessed)"
    shows "generateThumbnails_try env cfg st =
             reportSavings env cfg kept
               (st2\<lparr>console := console st2 @
                     [Blank, Complete totalProcessed (date_now env (world st2) - date_now env w2),
                      SavedTo (outputDir cfg)]\<rparr>)
           \<and> (isImageFile env file \<longleftrightarrow>
                toLowerCase (path_extname env file) \<in> {''.jpg'', ''.jpeg'', ''.png'', ''.webp''})
           \<and> filter isProcessing (console st2) = filter isProcessing (console st) @ map Processing kept
           \<and> summary (st2, totalProcessed) =
               foldl (flatStep env cfg) (w2, filter isThumbEvent (console st), 0) (tasks cfg kept)
           \<and> fst ` set (tasks cfg kept) \<subseteq> set kept"
proof -
  have exact: "isImageFile env f \<longleftrightarrow>
                 toLowerCase (path_extname env f) \<in> {''.jpg'', ''.jpeg'', ''.png'', ''.webp''}" for f
    by (simp add: isImageFile_def imageExtensions_def Let_def)
  have filtered: "filter (isImageFile env) files = kept"
    unfolding kept by (rule filter_cong) (simp_all only: exact)
  let ?st1 = "\<lparr>world = w2,
                console = console st @
                  [Found (length kept), OutputDirectory (outputDir cfg),
                   GeneratingSizes (sizes cfg), Formats (formats cfg), Blank]\<rparr>"
  have "generateThumbnails_try env cfg st = afterListing env cfg files (st\<lparr>world := w2\<rparr>)"
    using made listed by (simp add: generateThumbnails_try_def)
  also have "\<dots> = reportSavings env cfg kept
               (st2\<lparr>console := console st2 @
                     [Blank, Complete totalProcessed (date_now env (world st2) - date_now env w2),
                      SavedTo (outputDir cfg)]\<rparr>)"
  proof -
    have whole: "st\<lparr>world := w2, console := c\<rparr> = \<lparr>world = w2, console = c\<rparr>" for c
      by (cases st) simp
    show ?thesis
      using loop by (simp add: afterListing_def filtered Let_def whole)
  qed
  finally have run: "generateThumbnails_try env cfg st =
             reportSavings env cfg kept
               (st2\<lparr>console := console st2 @
                     [Blank, Complete totalProcessed (date_now env (world st2) - date_now env w2),
                      SavedTo (outputDir cfg)]\<rparr>)" .
  have lines: "filter isProcessing (console st2)
                 = filter isProcessing (console st) @ map Processing kept"
    using forFiles_processing[of env cfg kept "(?st1, 0)"] by (simp add: loop)
  have flat: "summary (st2, totalProcessed) =
               foldl (flatStep env cfg) (w2, filter isThumbEvent (console st), 0) (tasks cfg kept)"
    using summary_forFiles[of env cfg kept "(?st1, 0)"] by (simp add: loop summary_def)
  from run exact lines flat tasks_sources show ?thesis
    by blast
qed

theorem listing_filtered_by_extension_witness:
  "generateThumbnails_try node_env config (start album) =
     reportSavings node_env config [''a.jpg'', ''b.png'']
       \<lparr>world = album_done,
        console =
          [Found 2, OutputDirectory (outputDir config), GeneratingSizes (sizes config),
           Formats (formats config), Blank]
          @ Processing ''a.jpg'' # thumb_lines ''a'' @ Processing ''b.png'' # thumb_lines ''b''
          @ [Blank, Complete 12 96, SavedTo (outputDir config)]\<rparr>
   \<and> filter isProcessing
        ([Found 2, OutputDirectory (outputDir config), GeneratingSizes (sizes config),
          Formats (formats config), Blank]
         @ Processing ''a.jpg'' # thumb_lines ''a'' @ Processing ''b.png'' # thumb_lines ''b'')
       = [Processing ''a.jpg'', Processing ''b.png'']
   \<and> filter (isImageFile node_env)
        [''Photo.JPG'', ''scan.JpEg'', ''icon.png'', ''anim.WEBP'', ''notes.txt'', ''.jpg'',
         ''clip.gif'', ''jpg'', ''thumb'']
       = [''Photo.JPG'', ''scan.JpEg'', ''icon.png'', ''anim.WEBP'']"
proof -
  let ?w1 = "\<lparr>clock = 1001, nodes = nodes album @ [(''image/thumb'', Directory)]\<rparr>"
  let ?files = "[''a.jpg'', ''b.png'', ''notes.txt'', ''thumb'']"
  let ?lines = "[Found 2, OutputDirectory (outputDir config), GeneratingSizes (sizes config),
          Formats (formats config), Blank]
         @ Processing ''a.jpg'' # thumb_lines ''a'' @ Processing ''b.png'' # thumb_lines ''b''"
  have 1: "fs_ensureDir node_env (outputDir config) (world (start album)) = (Inr (), ?w1)"
    by (simp add: node_env_simps posix_defs lookup_def store_def tick_def ancestors_def
          mem_ensureDir_def config_def start_def album_def)
  have 2: "fs_readdir node_env (inputDir config) ?w1 = (Inr ?files, album_listed)"
    by (simp add: node_env_simps posix_defs lookup_def tick_def child_name_def
          mem_readdir_def config_def List.map_filter_def album_def album_listed_def)
  have 3: "[''a.jpg'', ''b.png''] =
             [file \<leftarrow> ?files. toLowerCase (path_extname node_env file)
                                \<in> {''.jpg'', ''.jpeg'', ''.png'', ''.webp''}]"
    by (simp add: node_env_simps posix_defs toLowerCase_def toLowerCase_char_def)
  have 4: "forFiles node_env config [''a.jpg'', ''b.png'']
             (\<lparr>world = album_listed,
               console = console (start album) @
                 [Found (length [''a.jpg'', ''b.png'']), OutputDirectory (outputDir config),
                  GeneratingSizes (sizes config), Formats (formats config), Blank]\<rparr>, 0)
           = (\<lparr>world = album_done, console = ?lines\<rparr>, 12)"
    by (simp add: album_loop start_def del: forFiles.simps)
  have mixed: "filter (isImageFile node_env)
        [''Photo.JPG'', ''scan.JpEg'', ''icon.png'', ''anim.WEBP'', ''notes.txt'', ''.jpg'',
         ''clip.gif'', ''jpg'', ''thumb'']
       = [''Photo.JPG'', ''scan.JpEg'', ''icon.png'', ''anim.WEBP'']"
    by (simp add: node_env_simps posix_defs script_defs)
  from listing_filtered_by_extension[OF 1 2 3 4] mixed show ?thesis
    by (simp add: album_clocks node_env_simps(7) start_def)
qed

end
